theory Spec2Isabelle
  imports Main
begin

section \<open>JavaScript values and option objects\<close>

text \<open>
  The values a caller can put into an options object. \<open>JNum\<close> carries the integral
  numbers (fractions, NaN and the infinities are left out); \<open>JObject\<close> stands for any
  plain non-array object, which the client only ever converts to a string. Strings are
  sequences of bytes, i.e. the UTF-8 form of the JavaScript string.
\<close>

datatype jsval = JUndefined | JNull | JBool bool | JNum int | JStr string | JObject

text \<open>
  An object literal is the list of its own properties in the order of \<open>Object.keys\<close>;
  a key occurs at most once.
\<close>

type_synonym jsobj = "(string \<times> jsval) list"

text \<open>\<open>obj.key\<close>: a missing property reads as \<open>undefined\<close>.\<close>

definition get_prop :: "jsobj \<Rightarrow> string \<Rightarrow> jsval" where
  "get_prop obj k = (case map_of obj k of None \<Rightarrow> JUndefined | Some v \<Rightarrow> v)"

text \<open>\<open>delete obj.key\<close>\<close>

definition delete_prop :: "jsobj \<Rightarrow> string \<Rightarrow> jsobj" where
  "delete_prop obj k = filter (\<lambda>kv. fst kv \<noteq> k) obj"

definition Object_keys :: "jsobj \<Rightarrow> string list" where
  "Object_keys obj = map fst obj"

fun truthy :: "jsval \<Rightarrow> bool" where
  "truthy JUndefined = False"
| "truthy JNull = False"
| "truthy (JBool b) = b"
| "truthy (JNum n) = (n \<noteq> 0)"
| "truthy (JStr s) = (s \<noteq> [])"
| "truthy JObject = True"

text \<open>\<open>a || b\<close>\<close>

definition js_or :: "jsval \<Rightarrow> jsval \<Rightarrow> jsval" where
  "js_or a b = (if truthy a then a else b)"

definition digit_char :: "nat \<Rightarrow> char" where
  "digit_char n = char_of (48 + n)"

fun show_nat :: "nat \<Rightarrow> string" where
  "show_nat n = (if n < 10 then [digit_char n] else show_nat (n div 10) @ [digit_char (n mod 10)])"

declare show_nat.simps [simp del]

definition show_int :: "int \<Rightarrow> string" where
  "show_int i = (if i < 0 then ''-'' @ show_nat (nat (- i)) else show_nat (nat i))"

text \<open>The string a value becomes inside a template literal \<open>`${v}`\<close>.\<close>

fun ToString :: "jsval \<Rightarrow> string" where
  "ToString JUndefined = ''undefined''"
| "ToString JNull = ''null''"
| "ToString (JBool b) = (if b then ''true'' else ''false'')"
| "ToString (JNum n) = show_int n"
| "ToString (JStr s) = s"
| "ToString JObject = ''[object Object]''"

section \<open>Responses and errors\<close>

text \<open>A parsed JSON document, as the HTTP layer puts it into \<open>res.body\<close>.\<close>

datatype json =
    JsonNull
  | JsonBool bool
  | JsonNum int
  | JsonStr string
  | JsonArr "json list"
  | JsonObj "(string \<times> json) list"

record response =
  status :: nat
  body :: json

text \<open>
  What an operation can raise: the argument error of \<open>precond\<close> (with the message the
  caller passed, if any), and the two ways in which the HTTP transport rejects.
\<close>

datatype js_error =
    IllegalArgumentError "string option"
  | NetworkError string
  | HttpError response

section \<open>Library functions the client calls\<close>

subsection \<open>precond.checkIsString\<close>

text \<open>
  The value itself when it is a string (\<open>typeof\<close>), the argument error otherwise; an
  empty string passes.
\<close>

definition checkIsString :: "jsval \<Rightarrow> string option \<Rightarrow> js_error + string" where
  "checkIsString v msg = (case v of JStr s \<Rightarrow> Inr s | _ \<Rightarrow> Inl (IllegalArgumentError msg))"

subsection \<open>Buffer.toString('base64')\<close>

text \<open>
  \<open>new Buffer(s)\<close> holds the UTF-8 bytes of \<open>s\<close>; three bytes become four characters
  of the base64 alphabet, and the last group is padded with \<open>=\<close>.
\<close>

definition base64_alphabet :: string where
  "base64_alphabet = ''ABCDEFGHIJKLMNOPQRSTUVWXYZabcdefghijklmnopqrstuvwxyz0123456789+/''"

definition b64 :: "nat \<Rightarrow> char" where
  "b64 n = base64_alphabet ! (n mod 64)"

fun base64_bytes :: "nat list \<Rightarrow> string" where
  "base64_bytes [] = []"
| "base64_bytes [a] = [b64 (a div 4), b64 ((a mod 4) * 16), CHR ''='', CHR ''='']"
| "base64_bytes [a, b] =
     [b64 (a div 4), b64 ((a mod 4) * 16 + b div 16), b64 ((b mod 16) * 4), CHR ''='']"
| "base64_bytes (a # b # c # rest) =
     [b64 (a div 4), b64 ((a mod 4) * 16 + b div 16), b64 ((b mod 16) * 4 + c div 64),
      b64 (c mod 64)] @ base64_bytes rest"

definition base64 :: "string \<Rightarrow> string" where
  "base64 s = base64_bytes (map of_char s)"

subsection \<open>querystring.stringify\<close>

text \<open>
  Each property becomes \<open>key=value\<close>, both percent-encoded but for letters, digits and
  \<open>- _ . ! ~ * ' ( )\<close>; the fields are joined by \<open>&\<close>. A string, number or boolean
  is written out, any other value gives the empty string.
\<close>

definition unreserved :: "char \<Rightarrow> bool" where
  "unreserved ch =
     (let n = (of_char ch :: nat)
      in (65 \<le> n \<and> n \<le> 90) \<or> (97 \<le> n \<and> n \<le> 122) \<or> (48 \<le> n \<and> n \<le> 57)
         \<or> n = 39 \<or> ch \<in> set ''-_.!~*()'')"

definition hex_digit :: "nat \<Rightarrow> char" where
  "hex_digit n = ''0123456789ABCDEF'' ! (n mod 16)"

definition escape_char :: "char \<Rightarrow> string" where
  "escape_char ch =
     (if unreserved ch then [ch]
      else [CHR ''%'', hex_digit ((of_char ch :: nat) div 16), hex_digit (of_char ch)])"

definition qs_escape :: "string \<Rightarrow> string" where
  "qs_escape s = concat (map escape_char s)"

fun stringifyPrimitive :: "jsval \<Rightarrow> string" where
  "stringifyPrimitive (JStr s) = s"
| "stringifyPrimitive (JNum n) = show_int n"
| "stringifyPrimitive (JBool b) = (if b then ''true'' else ''false'')"
| "stringifyPrimitive JUndefined = []"
| "stringifyPrimitive JNull = []"
| "stringifyPrimitive JObject = []"

definition qs_field :: "string \<times> jsval \<Rightarrow> string" where
  "qs_field kv = qs_escape (fst kv) @ ''='' @ qs_escape (stringifyPrimitive (snd kv))"

fun join_amp :: "string list \<Rightarrow> string" where
  "join_amp [] = []"
| "join_amp [f] = f"
| "join_amp (f # g # fs) = f @ ''&'' @ join_amp (g # fs)"

definition querystring_stringify :: "jsobj \<Rightarrow> string" where
  "querystring_stringify obj = join_amp (map qs_field obj)"

subsection \<open>moment().format('YYYYMMDD')\<close>

text \<open>The day the clock shows (years up to 9999), as four, two and two digits.\<close>

record date =
  year :: nat
  month :: nat
  day :: nat

definition format_YYYYMMDD :: "date \<Rightarrow> string" where
  "format_YYYYMMDD d =
     [digit_char (year d div 1000 mod 10), digit_char (year d div 100 mod 10),
      digit_char (year d div 10 mod 10), digit_char (year d mod 10),
      digit_char (month d div 10 mod 10), digit_char (month d mod 10),
      digit_char (day d div 10 mod 10), digit_char (day d mod 10)]"

section \<open>The HTTP layer\<close>

record request =
  http_method :: string
  url :: string
  headers :: "(string \<times> string) list"

text \<open>
  What an operation hands back to its caller: \<open>null\<close>, the parsed body of a response,
  or the response object itself.
\<close>

datatype retval = Null | Body json | Response response

text \<open>
  The world an operation runs in: how the network answers a request (a failure to
  connect, or a response), the requests sent so far, what has been written to standard
  error and to standard output, and the day the clock shows.
\<close>

record world =
  transport :: "request \<Rightarrow> string + response"
  issued :: "request list"
  stderr :: "js_error list"
  stdout :: "retval list"
  today :: date

text \<open>
  Awaiting a superagent request sends it; the promise rejects when the network fails or
  when the status of the response is not a 2xx one.
\<close>

definition await_request :: "request \<Rightarrow> world \<Rightarrow> (js_error + response) \<times> world" where
  "await_request r w =
     (let w1 = w\<lparr>issued := issued w @ [r]\<rparr>
      in case transport w r of
           Inl m \<Rightarrow> (Inl (NetworkError m), w1)
         | Inr res \<Rightarrow>
             if 200 \<le> status res \<and> status res < 300 then (Inr res, w1)
             else (Inl (HttpError res), w1))"

definition console_error :: "js_error \<Rightarrow> world \<Rightarrow> world" where
  "console_error e w = w\<lparr>stderr := stderr w @ [e]\<rparr>"

definition console_log :: "retval \<Rightarrow> world \<Rightarrow> world" where
  "console_log v w = w\<lparr>stdout := stdout w @ [v]\<rparr>"

section \<open>api-base.js\<close>

definition CURRENT :: string where
  "CURRENT = ''current''"

definition AUTHORIZATION :: string where
  "AUTHORIZATION = ''Authorization''"

definition GET :: string where
  "GET = ''GET''"

definition API_VERSION :: string where
  "API_VERSION = ''v2.1''"

record client =
  authHeader :: string
  baseUrl :: string
  leaguePath :: string

definition generateAuthHeader :: "string \<Rightarrow> string \<Rightarrow> string" where
  "generateAuthHeader apiKey password =
     (let basicAuthString = apiKey @ '':'' @ password;
          base64AuthString = base64 basicAuthString
      in ''Basic '' @ base64AuthString)"

definition ApiBase_constructor :: "jsobj \<Rightarrow> js_error + client" where
  "ApiBase_constructor options =
     (case checkIsString (get_prop options ''apiKey'') None of
        Inl e \<Rightarrow> Inl e
      | Inr apiKey \<Rightarrow>
          (case checkIsString (get_prop options ''password'') None of
             Inl e \<Rightarrow> Inl e
           | Inr password \<Rightarrow>
               Inr \<lparr>authHeader = generateAuthHeader apiKey password,
                    baseUrl = ''https://api.mysportsfeeds.com/'' @ API_VERSION @ ''/pull'',
                    leaguePath = []\<rparr>))"

definition buildRequest :: "client \<Rightarrow> string \<Rightarrow> string \<Rightarrow> request" where
  "buildRequest c m u = \<lparr>http_method = m, url = u, headers = [(AUTHORIZATION, authHeader c)]\<rparr>"

definition apiUrl :: "client \<Rightarrow> string \<Rightarrow> string" where
  "apiUrl c path = baseUrl c @ leaguePath c @ path"

text \<open>
  An operation is an async function: its outcome is what awaiting it gives, a raised
  error or a returned value. It also returns the caller's options object as the call
  leaves it, and the world. A call without an argument binds \<open>options\<close> to a fresh
  empty object.
\<close>

datatype outcome = Raised js_error | Returned retval

definition seasonGames :: "client \<Rightarrow> jsobj \<Rightarrow> world \<Rightarrow> outcome \<times> jsobj \<times> world" where
  "seasonGames c options w =
     (let seasonName = js_or (get_prop options ''seasonName'') (JStr CURRENT);
          options1 = delete_prop options ''seasonName'';
          path0 = ''/'' @ ToString seasonName @ ''/games.json'';
          path = (if length (Object_keys options1) \<noteq> 0
                  then path0 @ ''?'' @ querystring_stringify options1 else path0);
          seasonGamesUrl = apiUrl c path
      in case await_request (buildRequest c GET seasonGamesUrl) w of
           (Inl err, w1) \<Rightarrow> (Returned Null, options1, console_error err w1)
         | (Inr res, w1) \<Rightarrow> (Returned (Body (body res)), options1, w1))"

definition dailyGames :: "client \<Rightarrow> jsobj \<Rightarrow> world \<Rightarrow> outcome \<times> jsobj \<times> world" where
  "dailyGames c options w =
     (let season = js_or (get_prop options ''season'') (JStr CURRENT);
          options1 = delete_prop options ''season'';
          date = js_or (get_prop options1 ''date'') (JStr (format_YYYYMMDD (today w)));
          options2 = delete_prop options1 ''date'';
          path0 = ''/'' @ ToString season @ ''/date/'' @ ToString date @ ''/games.json'';
          path = (if length (Object_keys options2) \<noteq> 0
                  then path0 @ ''?'' @ querystring_stringify options2 else path0);
          dailyGamesUrl = apiUrl c path
      in case await_request (buildRequest c GET dailyGamesUrl) w of
           (Inl err, w1) \<Rightarrow> (Returned Null, options2, console_error err w1)
         | (Inr res, w1) \<Rightarrow> (Returned (Body (body res)), options2, w1))"

definition seasonalPlayerGamelogs ::
  "client \<Rightarrow> jsobj \<Rightarrow> world \<Rightarrow> outcome \<times> jsobj \<times> world" where
  \<open>seasonalPlayerGamelogs c options w =
     (let season = js_or (get_prop options ''season'') (JStr CURRENT);
          options1 = delete_prop options ''season''
      in case checkIsString (get_prop options1 ''game'')
                (Some ''"options.game" is a required parameter'') of
           Inl e \<Rightarrow> (Raised e, options1, w)
         | Inr game \<Rightarrow>
             (let path0 = ''/'' @ ToString season @ ''/player_gamelogs.json'';
                  path = (if length (Object_keys options1) \<noteq> 0
                          then path0 @ ''?'' @ querystring_stringify options1 else path0);
                  seasonalPlayerGamelogsUrl = apiUrl c path
              in case await_request (buildRequest c GET seasonalPlayerGamelogsUrl) w of
                   (Inl err, w1) \<Rightarrow> (Returned Null, options1, console_error err w1)
                 | (Inr res, w1) \<Rightarrow> (Returned (Body (body res)), options1, w1)))\<close>

section \<open>mlb-api.js\<close>

definition MlbApi_constructor :: "jsobj \<Rightarrow> js_error + client" where
  "MlbApi_constructor options =
     (case ApiBase_constructor options of
        Inl e \<Rightarrow> Inl e
      | Inr this \<Rightarrow> Inr (this\<lparr>leaguePath := ''/mlb''\<rparr>))"

subsection \<open>The older ApiBase (API v1.2) of mlb-api.js\<close>

definition ApiBase_v1_2_constructor :: "jsobj \<Rightarrow> js_error + client" where
  "ApiBase_v1_2_constructor options =
     (case checkIsString (get_prop options ''apiKey'') None of
        Inl e \<Rightarrow> Inl e
      | Inr apiKey \<Rightarrow>
          (case checkIsString (get_prop options ''password'') None of
             Inl e \<Rightarrow> Inl e
           | Inr password \<Rightarrow>
               Inr \<lparr>authHeader = generateAuthHeader apiKey password,
                    baseUrl = ''https://api.mysportsfeeds.com/v1.2/pull'',
                    leaguePath = []\<rparr>))"

text \<open>\<open>request.get(url).set(AUTHORIZATION, this._authHeader)\<close>\<close>

definition request_get :: "client \<Rightarrow> string \<Rightarrow> request" where
  "request_get c u = \<lparr>http_method = ''GET'', url = u, headers = [(AUTHORIZATION, authHeader c)]\<rparr>"

definition fullGameSchedule :: "client \<Rightarrow> jsobj \<Rightarrow> world \<Rightarrow> outcome \<times> jsobj \<times> world" where
  "fullGameSchedule c options w =
     (let seasonName = js_or (get_prop options ''seasonName'') (JStr CURRENT);
          fullGameScheduleUrl =
            apiUrl c (''/'' @ ToString seasonName @ ''/full_game_schedule.json'')
      in case await_request (request_get c fullGameScheduleUrl) w of
           (Inl err, w1) \<Rightarrow> (Returned Null, options, console_error err w1)
         | (Inr res, w1) \<Rightarrow> (Returned (Response res), options, w1))"

definition dailyGameSchedule :: "client \<Rightarrow> jsobj \<Rightarrow> world \<Rightarrow> outcome \<times> jsobj \<times> world" where
  "dailyGameSchedule c options w =
     (let seasonName = js_or (get_prop options ''seasonName'') (JStr CURRENT);
          forDate = js_or (get_prop options ''forDate'') (JStr (format_YYYYMMDD (today w)));
          dailyGameScheduleUrl =
            apiUrl c (ToString seasonName @ ''/daily_game_schedule.json?forDate=''
                      @ ToString forDate)
      in case await_request (request_get c dailyGameScheduleUrl) w of
           (Inl err, w1) \<Rightarrow> (Returned Null, options, console_error err w1)
         | (Inr res, w1) \<Rightarrow> (Returned (Response res), options, w1))"

section \<open>The example program that fetches the game logs of one game\<close>

text \<open>
  \<open>newInstance\<close> of the configuration module reads the two credentials from the
  environment; a variable that is not set reads as \<open>undefined\<close>.
\<close>

definition env_value :: "(string \<rightharpoonup> string) \<Rightarrow> string \<Rightarrow> jsval" where
  "env_value env k = (case env k of None \<Rightarrow> JUndefined | Some s \<Rightarrow> JStr s)"

definition newInstance :: "(string \<rightharpoonup> string) \<Rightarrow> jsobj" where
  "newInstance env =
     [(''apiKey'', env_value env ''MSF_API_KEY''),
      (''password'', env_value env ''MSF_API_PASSWORD'')]"

text \<open>
  The program builds the MLB client from that configuration (the module index exports
  \<open>MlbApi\<close> as \<open>MLB\<close>), asks for the game logs of one game and prints the result.
  It ends with the error it raised, if any.
\<close>

definition player_gamelogs_example :: "(string \<rightharpoonup> string) \<Rightarrow> world \<Rightarrow> js_error option \<times> world" where
  "player_gamelogs_example env w =
     (case MlbApi_constructor (newInstance env) of
        Inl e \<Rightarrow> (Some e, w)
      | Inr mlbApi \<Rightarrow>
          (case seasonalPlayerGamelogs mlbApi [(''game'', JStr ''20190924-NYY-TB'')] w of
             (Raised e, _, w1) \<Rightarrow> (Some e, w1)
           | (Returned res, _, w1) \<Rightarrow> (None, console_log res w1)))"

section \<open>Notions used to state the properties\<close>

text \<open>The requests sent between two states of the world.\<close>

definition new_requests :: "world \<Rightarrow> world \<Rightarrow> request list" where
  "new_requests w w' = drop (length (issued w)) (issued w')"

text \<open>The block every operation ends with: await the request, log and return \<open>null\<close>
  when it rejects, hand the response to \<open>f\<close> otherwise.\<close>

definition perform ::
  "request \<Rightarrow> (response \<Rightarrow> retval) \<Rightarrow> jsobj \<Rightarrow> world \<Rightarrow> outcome \<times> jsobj \<times> world" where
  "perform r f opts w =
     (case await_request r w of
        (Inl err, w1) \<Rightarrow> (Returned Null, opts, console_error err w1)
      | (Inr res, w1) \<Rightarrow> (Returned (f res), opts, w1))"

text \<open>The query string an operation appends for the options that are left.\<close>

definition query_suffix :: "jsobj \<Rightarrow> string" where
  "query_suffix opts = (if opts = [] then [] else ''?'' @ querystring_stringify opts)"

text \<open>The string an option becomes in the path, with its default.\<close>

definition option_or :: "jsobj \<Rightarrow> string \<Rightarrow> string \<Rightarrow> string" where
  "option_or opts k dflt = ToString (js_or (get_prop opts k) (JStr dflt))"

type_synonym operation = "client \<Rightarrow> jsobj \<Rightarrow> world \<Rightarrow> outcome \<times> jsobj \<times> world"

definition current_operations :: "operation set" where
  "current_operations = {seasonGames, dailyGames, seasonalPlayerGamelogs}"

definition older_operations :: "operation set" where
  "older_operations = {fullGameSchedule, dailyGameSchedule}"

text \<open>The number a string of decimal digits denotes.\<close>

definition decimal :: "string \<Rightarrow> nat" where
  "decimal s = foldl (\<lambda>n ch. 10 * n + (of_char ch - 48)) 0 s"

text \<open>
  A client, as \<open>MlbApi\<close> builds it from the credentials \<open>user\<close> and \<open>pass\<close>, and
  two worlds on 24 September 2019: one whose network refuses every connection, one that
  answers every request with the given response.
\<close>

definition mlb_client :: client where
  "mlb_client =
     \<lparr>authHeader = ''Basic dXNlcjpwYXNz'',
      baseUrl = ''https://api.mysportsfeeds.com/v2.1/pull'',
      leaguePath = ''/mlb''\<rparr>"

definition offline_world :: world where
  "offline_world =
     \<lparr>transport = (\<lambda>r. Inl ''ECONNREFUSED''), issued = [], stderr = [], stdout = [],
      today = \<lparr>year = 2019, month = 9, day = 24\<rparr>\<rparr>"

definition answering_world :: "response \<Rightarrow> world" where
  "answering_world res =
     \<lparr>transport = (\<lambda>r. Inr res), issued = [], stderr = [], stdout = [],
      today = \<lparr>year = 2019, month = 9, day = 24\<rparr>\<rparr>"

text \<open>The client the older \<open>ApiBase\<close> builds from the same credentials.\<close>

definition older_client :: client where
  "older_client =
     \<lparr>authHeader = ''Basic dXNlcjpwYXNz'',
      baseUrl = ''https://api.mysportsfeeds.com/v1.2/pull'',
      leaguePath = []\<rparr>"

text \<open>
  The endpoints the specification lists, in the widest reading, so that a path it
  rejects is one of the listed endpoints on no reading; the exact paths of the
  operations are stated where they are proved. \<open>file_at name e i\<close>: at position \<open>i\<close> of
  \<open>e\<close> stands \<open>name\<close>, followed by the end of \<open>e\<close> or by a query string.
  \<open>spec_endpoint e\<close>: \<open>e\<close> begins with a slash, and further on comes
  \<open>/games.json\<close>, which covers \<open>/{season}/games.json\<close> and
  \<open>/{season}/date/{date}/games.json\<close>, or \<open>/player_gamelogs.json\<close> with a query
  string.
\<close>

definition file_at :: "string \<Rightarrow> string \<Rightarrow> nat \<Rightarrow> bool" where
  "file_at name e i =
     (take (length name) (drop i e) = name \<and>
      (drop (i + length name) e = [] \<or> take 1 (drop (i + length name) e) = ''?''))"

definition query_at :: "string \<Rightarrow> string \<Rightarrow> nat \<Rightarrow> bool" where
  "query_at name e i =
     (take (length name) (drop i e) = name \<and> take 1 (drop (i + length name) e) = ''?'')"

definition spec_endpoint :: "string \<Rightarrow> bool" where
  "spec_endpoint e =
     (take 1 e = ''/'' \<and>
      (list_ex (file_at ''/games.json'' e) [1..<length e] \<or>
       list_ex (query_at ''/player_gamelogs.json'' e) [1..<length e]))"

text \<open>
  The URL form of the specification, for a client:
  \<open>https://api.<provider>/<version>/pull<leaguePath><endpoint>\<close>.
\<close>

definition spec_url :: "client \<Rightarrow> string \<Rightarrow> bool" where
  "spec_url c u =
     (take (length (baseUrl c @ leaguePath c)) u = baseUrl c @ leaguePath c \<and>
      spec_endpoint (drop (length (baseUrl c @ leaguePath c)) u))"

text \<open>A request with the league path \<open>/mlb\<close> put in after the base URL of the client.\<close>

definition via_mlb :: "client \<Rightarrow> request \<Rightarrow> request" where
  "via_mlb b r = r\<lparr>url := baseUrl b @ ''/mlb'' @ drop (length (baseUrl b)) (url r)\<rparr>"

text \<open>
  Two runs of an operation from the world \<open>w\<close>, the second by the client \<open>b\<close>, agree
  but for the league path: same outcome, same options left to the caller, same output,
  and the requests of the first are those of the second with \<open>/mlb\<close> put in.
\<close>

definition same_but_mlb ::
  "client \<Rightarrow> world \<Rightarrow> outcome \<times> jsobj \<times> world \<Rightarrow> outcome \<times> jsobj \<times> world \<Rightarrow> bool" where
  "same_but_mlb b w Rm Rb =
     (fst Rm = fst Rb \<and> fst (snd Rm) = fst (snd Rb) \<and>
      stderr (snd (snd Rm)) = stderr (snd (snd Rb)) \<and>
      stdout (snd (snd Rm)) = stdout (snd (snd Rb)) \<and>
      new_requests w (snd (snd Rm)) = map (via_mlb b) (new_requests w (snd (snd Rb))))"

section \<open>Basic facts\<close>

subsection \<open>The library functions\<close>

lemma base64_bytes_length: "length (base64_bytes bs) = 4 * ((length bs + 2) div 3)"
proof (induction bs rule: base64_bytes.induct)
  case (4 a b c rest)
  have "(length rest + 2 + 3) div 3 = Suc ((length rest + 2) div 3)"
    by (simp only: div_add_self2)
  with 4 show ?case by (simp add: add.commute)
qed simp_all

lemma base64_length: "length (base64 s) = 4 * ((length s + 2) div 3)"
  by (simp add: base64_def base64_bytes_length)

lemma base64_test_vectors:
  "base64 [] = []"
  "base64 ''f'' = ''Zg==''"
  "base64 ''fo'' = ''Zm8=''"
  "base64 ''foo'' = ''Zm9v''"
  "base64 ''foob'' = ''Zm9vYg==''"
  "base64 ''fooba'' = ''Zm9vYmE=''"
  "base64 ''foobar'' = ''Zm9vYmFy''"
  by (simp_all add: base64_def b64_def base64_alphabet_def)

lemma querystring_stringify_example:
  "querystring_stringify
     [(''team'', JStr ''a b&c''), (''limit'', JNum 25), (''force'', JBool True), (''x'', JNull)] =
   ''team=a%20b%26c&limit=25&force=true&x=''"
  by (simp add: querystring_stringify_def qs_field_def qs_escape_def escape_char_def
      unreserved_def hex_digit_def show_int_def show_nat.simps digit_char_def char_of_def
      bit_iff_odd)

subsection \<open>Option objects\<close>

lemma get_prop_delete_other: "k \<noteq> k' \<Longrightarrow> get_prop (delete_prop obj k') k = get_prop obj k"
  by (induction obj) (auto simp: get_prop_def delete_prop_def)

lemma get_prop_delete_same: "get_prop (delete_prop obj k) k = JUndefined"
  by (induction obj) (auto simp: get_prop_def delete_prop_def)

lemma delete_prop_absent: "k \<notin> set (Object_keys obj) \<Longrightarrow> delete_prop obj k = obj"
  by (induction obj) (auto simp: delete_prop_def Object_keys_def)

lemma get_prop_absent: "k \<notin> set (Object_keys obj) \<Longrightarrow> get_prop obj k = JUndefined"
  by (induction obj) (auto simp: get_prop_def Object_keys_def)

lemma keys_delete_prop: "set (Object_keys (delete_prop obj k)) = set (Object_keys obj) - {k}"
  by (induction obj) (auto simp: delete_prop_def Object_keys_def)

lemma map_of_delete_prop: "map_of (delete_prop obj k) k' = (if k' = k then None else map_of obj k')"
  by (induction obj) (auto simp: delete_prop_def)

lemma option_or_absent: "k \<notin> set (Object_keys opts) \<Longrightarrow> option_or opts k d = d"
  by (simp add: option_or_def get_prop_absent js_or_def)

subsection \<open>Awaiting a request\<close>

lemma perform_options: "fst (snd (perform r f opts w)) = opts"
  by (simp add: perform_def await_request_def Let_def split: sum.splits)

lemma perform_issued: "issued (snd (snd (perform r f opts w))) = issued w @ [r]"
  by (simp add: perform_def await_request_def console_error_def Let_def split: sum.splits)

lemma perform_new_requests: "new_requests w (snd (snd (perform r f opts w))) = [r]"
  by (simp add: new_requests_def perform_issued)

lemma perform_outcome:
  "fst (perform r f opts w) =
     (case transport w r of
        Inl m \<Rightarrow> Returned Null
      | Inr res \<Rightarrow> if 200 \<le> status res \<and> status res < 300 then Returned (f res) else Returned Null)"
  by (simp add: perform_def await_request_def Let_def split: sum.splits)

lemma perform_stderr:
  "stderr (snd (snd (perform r f opts w))) =
     (case transport w r of
        Inl m \<Rightarrow> stderr w @ [NetworkError m]
      | Inr res \<Rightarrow> if 200 \<le> status res \<and> status res < 300 then stderr w else stderr w @ [HttpError res])"
  by (simp add: perform_def await_request_def console_error_def Let_def split: sum.splits)

lemma perform_rest:
  "transport (snd (snd (perform r f opts w))) = transport w \<and>
   stdout (snd (snd (perform r f opts w))) = stdout w \<and>
   today (snd (snd (perform r f opts w))) = today w"
  by (simp add: perform_def await_request_def console_error_def Let_def split: sum.splits)

subsection \<open>The operations in normal form\<close>

lemma seasonGames_perform:
  "seasonGames c options w =
     perform (buildRequest c GET (apiUrl c (''/'' @ option_or options ''seasonName'' CURRENT
                @ ''/games.json'' @ query_suffix (delete_prop options ''seasonName''))))
       (\<lambda>res. Body (body res)) (delete_prop options ''seasonName'') w"
  by (simp add: seasonGames_def perform_def option_or_def query_suffix_def Let_def Object_keys_def)

lemma dailyGames_perform:
  "dailyGames c options w =
     perform (buildRequest c GET (apiUrl c (''/'' @ option_or options ''season'' CURRENT
                @ ''/date/'' @ option_or options ''date'' (format_YYYYMMDD (today w))
                @ ''/games.json''
                @ query_suffix (delete_prop (delete_prop options ''season'') ''date''))))
       (\<lambda>res. Body (body res)) (delete_prop (delete_prop options ''season'') ''date'') w"
  by (simp add: dailyGames_def perform_def option_or_def query_suffix_def Let_def Object_keys_def
      get_prop_delete_other)

lemma seasonalPlayerGamelogs_perform:
  "seasonalPlayerGamelogs c options w =
     (case get_prop options ''game'' of
        JStr game \<Rightarrow>
          perform (buildRequest c GET (apiUrl c (''/'' @ option_or options ''season'' CURRENT
                     @ ''/player_gamelogs.json'' @ query_suffix (delete_prop options ''season''))))
            (\<lambda>res. Body (body res)) (delete_prop options ''season'') w
      | _ \<Rightarrow> (Raised (IllegalArgumentError (Some ''\"options.game\" is a required parameter'')),
              delete_prop options ''season'', w))"
  by (simp add: seasonalPlayerGamelogs_def perform_def option_or_def query_suffix_def Let_def
      Object_keys_def get_prop_delete_other checkIsString_def split: jsval.splits)

lemma fullGameSchedule_perform:
  "fullGameSchedule c options w =
     perform (request_get c (apiUrl c (''/'' @ option_or options ''seasonName'' CURRENT
                @ ''/full_game_schedule.json'')))
       Response options w"
  by (simp add: fullGameSchedule_def perform_def option_or_def Let_def)

lemma dailyGameSchedule_perform:
  "dailyGameSchedule c options w =
     perform (request_get c (apiUrl c (option_or options ''seasonName'' CURRENT
                @ ''/daily_game_schedule.json?forDate=''
                @ option_or options ''forDate'' (format_YYYYMMDD (today w)))))
       Response options w"
  by (simp add: dailyGameSchedule_def perform_def option_or_def Let_def)

section \<open>The authorization header\<close>

lemma new_requests_same: "new_requests w w = []"
  by (simp add: new_requests_def)

lemma operation_requests:
  assumes "op \<in> current_operations \<union> older_operations"
  shows "\<forall>r\<in>set (new_requests w (snd (snd (op c opts w)))).
           http_method r = ''GET'' \<and> headers r = [(''Authorization'', authHeader c)]"
  using assms
  by (auto simp: current_operations_def older_operations_def seasonGames_perform
      dailyGames_perform seasonalPlayerGamelogs_perform fullGameSchedule_perform
      dailyGameSchedule_perform perform_new_requests buildRequest_def request_get_def
      GET_def AUTHORIZATION_def new_requests_same split: jsval.splits)

lemma constructor_string_credentials:
  assumes "get_prop options ''apiKey'' = JStr apiKey" "get_prop options ''password'' = JStr password"
  shows "ApiBase_constructor options =
           Inr \<lparr>authHeader = ''Basic '' @ base64 (apiKey @ '':'' @ password),
                baseUrl = ''https://api.mysportsfeeds.com/v2.1/pull'', leaguePath = []\<rparr>"
    and "MlbApi_constructor options =
           Inr \<lparr>authHeader = ''Basic '' @ base64 (apiKey @ '':'' @ password),
                baseUrl = ''https://api.mysportsfeeds.com/v2.1/pull'', leaguePath = ''/mlb''\<rparr>"
    and "ApiBase_v1_2_constructor options =
           Inr \<lparr>authHeader = ''Basic '' @ base64 (apiKey @ '':'' @ password),
                baseUrl = ''https://api.mysportsfeeds.com/v1.2/pull'', leaguePath = []\<rparr>"
  using assms
  by (simp_all add: ApiBase_constructor_def MlbApi_constructor_def ApiBase_v1_2_constructor_def
      checkIsString_def generateAuthHeader_def API_VERSION_def)

text \<open>
  C1. For every pair of string credentials, each of the three constructors succeeds, and
  the header it stores is \<open>Basic\<close>, a space, and the base64 encoding of the key, a
  colon and the password. Every request that \<open>_buildRequest\<close> builds, and every
  request that any operation sends, carries exactly that value as its
  \<open>Authorization\<close> header.
\<close>

theorem auth_header_basic_base64:
  assumes "get_prop options ''apiKey'' = JStr apiKey"
    and "get_prop options ''password'' = JStr password"
    and "ctor \<in> {ApiBase_constructor, MlbApi_constructor, ApiBase_v1_2_constructor}"
  shows "\<exists>c. ctor options = Inr c \<and>
           authHeader c = ''Basic '' @ base64 (apiKey @ '':'' @ password) \<and>
           (\<forall>m u. headers (buildRequest c m u) =
                     [(''Authorization'', ''Basic '' @ base64 (apiKey @ '':'' @ password))]) \<and>
           (\<forall>op\<in>current_operations \<union> older_operations. \<forall>opts w.
              \<forall>r\<in>set (new_requests w (snd (snd (op c opts w)))).
                headers r = [(''Authorization'', ''Basic '' @ base64 (apiKey @ '':'' @ password))])"
proof -
  let ?h = "''Basic '' @ base64 (apiKey @ '':'' @ password)"
  from assms(3) obtain c where c: "ctor options = Inr c" and h: "authHeader c = ?h"
    using constructor_string_credentials [OF assms(1,2)] by auto
  have "headers (buildRequest c m u) = [(''Authorization'', ?h)]" for m u
    by (simp add: buildRequest_def AUTHORIZATION_def h)
  moreover have "\<forall>r\<in>set (new_requests w (snd (snd (op c opts w)))). headers r = [(''Authorization'', ?h)]"
    if "op \<in> current_operations \<union> older_operations" for op opts w
    using operation_requests [OF that, of w c opts] h by simp
  ultimately show ?thesis using c h by blast
qed

theorem auth_header_basic_base64_witness:
  "\<exists>c. MlbApi_constructor [(''apiKey'', JStr ''user''), (''password'', JStr ''pass'')] = Inr c \<and>
        authHeader c = ''Basic dXNlcjpwYXNz'' \<and>
        headers (buildRequest c ''GET'' ''https://example.org'') = [(''Authorization'', ''Basic dXNlcjpwYXNz'')]"
proof -
  have b: "base64 ''user:pass'' = ''dXNlcjpwYXNz''"
    by (simp add: base64_def b64_def base64_alphabet_def)
  have "get_prop [(''apiKey'', JStr ''user''), (''password'', JStr ''pass'')] ''apiKey'' = JStr ''user''"
    and "get_prop [(''apiKey'', JStr ''user''), (''password'', JStr ''pass'')] ''password'' = JStr ''pass''"
    and "MlbApi_constructor \<in> {ApiBase_constructor, MlbApi_constructor, ApiBase_v1_2_constructor}"
    by (simp_all add: get_prop_def)
  from auth_header_basic_base64 [OF this] show ?thesis
    by (simp add: b) blast
qed

section \<open>The game identifier is required\<close>

text \<open>
  C3. When the options object has no string under \<open>game\<close>, awaiting
  \<open>seasonalPlayerGamelogs\<close> raises the argument error of \<open>precond\<close>; the world is
  left as it was, so no request has been sent; and what is raised is not the \<open>null\<close>
  that a failed request makes the operation return.
\<close>

theorem gamelogs_without_game_raises:
  assumes "\<forall>s. get_prop options ''game'' \<noteq> JStr s"
  shows "(\<exists>msg. fst (seasonalPlayerGamelogs c options w) = Raised (IllegalArgumentError msg)) \<and>
         snd (snd (seasonalPlayerGamelogs c options w)) = w \<and>
         new_requests w (snd (snd (seasonalPlayerGamelogs c options w))) = [] \<and>
         fst (seasonalPlayerGamelogs c options w) \<noteq> Returned Null"
  using assms
  by (cases "get_prop options ''game''")
    (simp_all add: seasonalPlayerGamelogs_perform new_requests_same)

theorem gamelogs_without_game_raises_witness:
  "(\<forall>s. get_prop [(''season'', JStr ''2019-regular''), (''game'', JNum 7)] ''game'' \<noteq> JStr s) \<and>
   fst (seasonalPlayerGamelogs mlb_client
          [(''season'', JStr ''2019-regular''), (''game'', JNum 7)] offline_world) \<noteq>
     Returned Null \<and>
   snd (seasonalPlayerGamelogs mlb_client
          [(''season'', JStr ''2019-regular''), (''game'', JNum 7)] offline_world) =
     ([(''game'', JNum 7)], offline_world) \<and>
   (\<forall>s. get_prop [] ''game'' \<noteq> JStr s) \<and>
   issued (snd (snd (seasonalPlayerGamelogs mlb_client [] offline_world))) = []"
proof -
  have h: "\<forall>s. get_prop [(''season'', JStr ''2019-regular''), (''game'', JNum 7)] ''game'' \<noteq> JStr s"
    and e: "\<forall>s. get_prop [] ''game'' \<noteq> JStr s"
    by (simp_all add: get_prop_def)
  have o: "fst (snd (seasonalPlayerGamelogs mlb_client
          [(''season'', JStr ''2019-regular''), (''game'', JNum 7)] offline_world)) =
      [(''game'', JNum 7)]"
    by (simp add: seasonalPlayerGamelogs_perform get_prop_def delete_prop_def)
  have i: "issued offline_world = []"
    by (simp add: offline_world_def)
  from gamelogs_without_game_raises [OF h, of mlb_client offline_world]
    gamelogs_without_game_raises [OF e, of mlb_client offline_world]
  show ?thesis
    using h e o i by (simp add: prod_eq_iff)
qed

section \<open>The path of one game's logs\<close>

text \<open>
  C4. Called with exactly \<open>{ game: "20190924-NYY-TB" }\<close>, \<open>seasonalPlayerGamelogs\<close>
  sends one GET request, to the base URL and league path of the client followed by
  \<open>/current/player_gamelogs.json?game=20190924-NYY-TB\<close>.
\<close>

theorem gamelogs_path_of_game:
  "new_requests w (snd (snd (seasonalPlayerGamelogs c [(''game'', JStr ''20190924-NYY-TB'')] w))) =
     [\<lparr>http_method = ''GET'',
       url = baseUrl c @ leaguePath c @ ''/current/player_gamelogs.json?game=20190924-NYY-TB'',
       headers = [(''Authorization'', authHeader c)]\<rparr>]"
  by (simp add: seasonalPlayerGamelogs_perform perform_new_requests get_prop_def option_or_def
      js_or_def delete_prop_def query_suffix_def querystring_stringify_def qs_field_def
      qs_escape_def escape_char_def unreserved_def CURRENT_def buildRequest_def apiUrl_def
      GET_def AUTHORIZATION_def)

section \<open>Defaults of the season and of the date\<close>

lemma digit_char_value: "n < 10 \<Longrightarrow> (of_char (digit_char n) :: nat) = 48 + n"
  by (simp add: digit_char_def)

lemma format_YYYYMMDD_length: "length (format_YYYYMMDD d) = 8"
  by (simp add: format_YYYYMMDD_def)

lemma four_digits:
  assumes "(y::nat) < 10000"
  shows "1000 * (y div 1000 mod 10) + 100 * (y div 100 mod 10) + 10 * (y div 10 mod 10) + y mod 10 = y"
proof -
  define a where "a = y div 10"
  define b where "b = a div 10"
  define c where "c = b div 10"
  have ya: "y = 10 * a + y mod 10" by (simp add: a_def)
  have ab: "a = 10 * b + a mod 10" by (simp add: b_def)
  have bc: "b = 10 * c + b mod 10" by (simp add: c_def)
  have b100: "y div 100 = b" by (simp add: a_def b_def div_mult2_eq [symmetric])
  have c1000: "y div 1000 = c" by (simp add: a_def b_def c_def div_mult2_eq [symmetric])
  have "c < 10" using assms c1000 [symmetric] by simp
  then have cm: "c mod 10 = c" by simp
  have "1000 * c + 100 * (b mod 10) + 10 * (a mod 10) + y mod 10 = y"
    using ya ab bc by linarith
  then show ?thesis by (simp add: b100 c1000 cm a_def [symmetric])
qed

lemma two_digits:
  assumes "(m::nat) < 100"
  shows "10 * (m div 10 mod 10) + m mod 10 = m"
proof -
  have "m div 10 < 10" using assms by simp
  then have "m div 10 mod 10 = m div 10" by simp
  then show ?thesis by simp
qed

lemma format_YYYYMMDD_value:
  assumes "year d < 10000" "month d < 100" "day d < 100"
  shows "decimal (format_YYYYMMDD d) = year d * 10000 + month d * 100 + day d"
proof -
  have dv: "(of_char (digit_char (k mod 10)) :: nat) - 48 = k mod 10" for k
    by (simp add: digit_char_value)
  have "decimal (format_YYYYMMDD d) =
          10000 * (1000 * (year d div 1000 mod 10) + 100 * (year d div 100 mod 10)
                   + 10 * (year d div 10 mod 10) + year d mod 10)
          + 100 * (10 * (month d div 10 mod 10) + month d mod 10)
          + (10 * (day d div 10 mod 10) + day d mod 10)"
    unfolding decimal_def format_YYYYMMDD_def by (simp add: dv)
  then show ?thesis
    by (simp only: four_digits [OF assms(1)] two_digits [OF assms(2)] two_digits [OF assms(3)])
qed

text \<open>
  C5. When the key an operation reads the season from is not in the options
  (\<open>seasonName\<close> for \<open>seasonGames\<close> and the two older operations, \<open>season\<close> for
  \<open>dailyGames\<close> and \<open>seasonalPlayerGamelogs\<close>), the URL it requests has \<open>current\<close>
  where the season goes; when \<open>dailyGames\<close> (or the older \<open>dailyGameSchedule\<close>) is
  given no date, the URL has the clock's day in the form \<open>YYYYMMDD\<close>.
\<close>

theorem default_season_and_date:
  "(''seasonName'' \<notin> set (Object_keys options) \<longrightarrow>
      map url (new_requests w (snd (snd (seasonGames c options w)))) =
        [baseUrl c @ leaguePath c @ ''/current/games.json'' @ query_suffix options]) \<and>
   (''season'' \<notin> set (Object_keys options) \<longrightarrow>
      map url (new_requests w (snd (snd (dailyGames c options w)))) =
        [baseUrl c @ leaguePath c @ ''/current/date/''
           @ option_or options ''date'' (format_YYYYMMDD (today w)) @ ''/games.json''
           @ query_suffix (delete_prop options ''date'')]) \<and>
   (''date'' \<notin> set (Object_keys options) \<longrightarrow>
      map url (new_requests w (snd (snd (dailyGames c options w)))) =
        [baseUrl c @ leaguePath c @ ''/'' @ option_or options ''season'' ''current'' @ ''/date/''
           @ format_YYYYMMDD (today w) @ ''/games.json''
           @ query_suffix (delete_prop options ''season'')]) \<and>
   (''season'' \<notin> set (Object_keys options) \<and> get_prop options ''game'' = JStr game \<longrightarrow>
      map url (new_requests w (snd (snd (seasonalPlayerGamelogs c options w)))) =
        [baseUrl c @ leaguePath c @ ''/current/player_gamelogs.json''
           @ query_suffix options]) \<and>
   (''seasonName'' \<notin> set (Object_keys options) \<longrightarrow>
      map url (new_requests w (snd (snd (fullGameSchedule c options w)))) =
        [baseUrl c @ leaguePath c @ ''/current/full_game_schedule.json'']) \<and>
   (''seasonName'' \<notin> set (Object_keys options) \<longrightarrow>
      map url (new_requests w (snd (snd (dailyGameSchedule c options w)))) =
        [baseUrl c @ leaguePath c @ ''current/daily_game_schedule.json?forDate=''
           @ option_or options ''forDate'' (format_YYYYMMDD (today w))]) \<and>
   (''forDate'' \<notin> set (Object_keys options) \<longrightarrow>
      map url (new_requests w (snd (snd (dailyGameSchedule c options w)))) =
        [baseUrl c @ leaguePath c @ option_or options ''seasonName'' ''current''
           @ ''/daily_game_schedule.json?forDate='' @ format_YYYYMMDD (today w)])"
  by (simp add: seasonGames_perform dailyGames_perform seasonalPlayerGamelogs_perform
      fullGameSchedule_perform dailyGameSchedule_perform perform_new_requests
      option_or_absent delete_prop_absent keys_delete_prop buildRequest_def request_get_def apiUrl_def
      CURRENT_def)

theorem default_season_and_date_witness:
  "''season'' \<notin> set (Object_keys [(''team'', JStr ''nyy'')]) \<and>
   ''date'' \<notin> set (Object_keys [(''team'', JStr ''nyy'')]) \<and>
   map url (new_requests offline_world
     (snd (snd (dailyGames mlb_client [(''team'', JStr ''nyy'')] offline_world)))) =
     [''https://api.mysportsfeeds.com/v2.1/pull/mlb/current/date/20190924/games.json?team=nyy'']"
proof -
  have k: "''season'' \<notin> set (Object_keys [(''team'', JStr ''nyy'')])"
    "''date'' \<notin> set (Object_keys [(''team'', JStr ''nyy'')])"
    by (simp_all add: Object_keys_def)
  have f: "format_YYYYMMDD (today offline_world) = ''20190924''"
    by (simp add: offline_world_def format_YYYYMMDD_def digit_char_def char_of_def bit_iff_odd)
  have q: "query_suffix (delete_prop [(''team'', JStr ''nyy'')] ''date'') = ''?team=nyy''"
    by (simp add: query_suffix_def delete_prop_def querystring_stringify_def qs_field_def
        qs_escape_def escape_char_def unreserved_def)
  have o: "option_or [(''team'', JStr ''nyy'')] ''date'' ''20190924'' = ''20190924''"
    by (simp add: option_or_def get_prop_def js_or_def)
  from default_season_and_date [of "[(''team'', JStr ''nyy'')]" offline_world mlb_client]
  show ?thesis using k by (simp add: f q o mlb_client_def)
qed

section \<open>Construction checks the credentials\<close>

lemma constructor_fails:
  assumes "\<not> (\<exists>k p. get_prop options ''apiKey'' = JStr k \<and> get_prop options ''password'' = JStr p)"
  shows "ApiBase_constructor options = Inl (IllegalArgumentError None)"
    and "MlbApi_constructor options = Inl (IllegalArgumentError None)"
    and "ApiBase_v1_2_constructor options = Inl (IllegalArgumentError None)"
  using assms
  by (auto simp: ApiBase_constructor_def MlbApi_constructor_def ApiBase_v1_2_constructor_def
      checkIsString_def split: jsval.splits)

lemma newInstance_props:
  "get_prop (newInstance env) ''apiKey'' = env_value env ''MSF_API_KEY''"
  "get_prop (newInstance env) ''password'' = env_value env ''MSF_API_PASSWORD''"
  by (simp_all add: newInstance_def get_prop_def)

lemma env_value_string: "(env_value env k = JStr s) = (env k = Some s)"
  by (simp add: env_value_def split: option.splits)

lemma example_without_credentials:
  assumes "env ''MSF_API_KEY'' = None \<or> env ''MSF_API_PASSWORD'' = None"
  shows "player_gamelogs_example env w = (Some (IllegalArgumentError None), w)"
proof -
  from assms have "\<not> (\<exists>k p. get_prop (newInstance env) ''apiKey'' = JStr k \<and>
                 get_prop (newInstance env) ''password'' = JStr p)"
    by (auto simp: newInstance_props env_value_string)
  from constructor_fails(2) [OF this] show ?thesis
    by (simp add: player_gamelogs_example_def)
qed

text \<open>
  C6. A constructor succeeds exactly when the options hold a string under \<open>apiKey\<close>
  and a string under \<open>password\<close>; otherwise it raises the argument error of
  \<open>precond\<close>. A constructor has no access to the network, and the example program,
  started without one of the two environment variables, ends with that error in an
  unchanged world: nothing has been sent.
\<close>

theorem construction_requires_string_credentials:
  assumes "ctor \<in> {ApiBase_constructor, MlbApi_constructor, ApiBase_v1_2_constructor}"
  shows "((\<exists>c. ctor options = Inr c) \<longleftrightarrow>
            (\<exists>k p. get_prop options ''apiKey'' = JStr k \<and> get_prop options ''password'' = JStr p)) \<and>
         ((\<forall>c. ctor options \<noteq> Inr c) \<longrightarrow> ctor options = Inl (IllegalArgumentError None)) \<and>
         (env ''MSF_API_KEY'' = None \<or> env ''MSF_API_PASSWORD'' = None \<longrightarrow>
            player_gamelogs_example env w = (Some (IllegalArgumentError None), w))"
proof (cases "\<exists>k p. get_prop options ''apiKey'' = JStr k \<and> get_prop options ''password'' = JStr p")
  case True
  then obtain k p where "get_prop options ''apiKey'' = JStr k" "get_prop options ''password'' = JStr p"
    by blast
  from constructor_string_credentials [OF this] assms have "\<exists>c. ctor options = Inr c"
    by auto
  then show ?thesis using True example_without_credentials [of env w] by auto
next
  case False
  from constructor_fails [OF this] assms have "ctor options = Inl (IllegalArgumentError None)"
    by auto
  then show ?thesis using False example_without_credentials [of env w] by auto
qed

theorem construction_requires_string_credentials_witness:
  "MlbApi_constructor [(''apiKey'', JStr ''user'')] = Inl (IllegalArgumentError None) \<and>
   ApiBase_constructor [(''apiKey'', JStr ''user''), (''password'', JNum 1234)] =
     Inl (IllegalArgumentError None) \<and>
   (\<exists>c. ApiBase_v1_2_constructor [(''apiKey'', JStr ''user''), (''password'', JStr ''pass'')] = Inr c) \<and>
   player_gamelogs_example [''MSF_API_KEY'' \<mapsto> ''user''] offline_world =
     (Some (IllegalArgumentError None), offline_world)"
proof -
  have 1: "MlbApi_constructor \<in> {ApiBase_constructor, MlbApi_constructor, ApiBase_v1_2_constructor}"
    and 2: "ApiBase_constructor \<in> {ApiBase_constructor, MlbApi_constructor, ApiBase_v1_2_constructor}"
    and 3: "ApiBase_v1_2_constructor \<in> {ApiBase_constructor, MlbApi_constructor, ApiBase_v1_2_constructor}"
    by simp_all
  have "MlbApi_constructor [(''apiKey'', JStr ''user'')] = Inl (IllegalArgumentError None)"
    using construction_requires_string_credentials [OF 1, of "[(''apiKey'', JStr ''user'')]"]
    by (simp add: get_prop_def)
  moreover have "ApiBase_constructor [(''apiKey'', JStr ''user''), (''password'', JNum 1234)] =
     Inl (IllegalArgumentError None)"
    using construction_requires_string_credentials
      [OF 2, of "[(''apiKey'', JStr ''user''), (''password'', JNum 1234)]"]
    by (simp add: get_prop_def)
  moreover have "\<exists>c. ApiBase_v1_2_constructor
      [(''apiKey'', JStr ''user''), (''password'', JStr ''pass'')] = Inr c"
    using construction_requires_string_credentials
      [OF 3, of "[(''apiKey'', JStr ''user''), (''password'', JStr ''pass'')]"]
    by (simp add: get_prop_def)
  moreover have "player_gamelogs_example [''MSF_API_KEY'' \<mapsto> ''user''] offline_world =
     (Some (IllegalArgumentError None), offline_world)"
    using construction_requires_string_credentials
      [OF 1, of _ "[''MSF_API_KEY'' \<mapsto> ''user'']" offline_world]
    by simp
  ultimately show ?thesis by blast
qed

section \<open>A rejected request\<close>

lemma operation_performs:
  assumes "op \<in> current_operations \<union> older_operations"
    and "op = seasonalPlayerGamelogs \<longrightarrow> (\<exists>g. get_prop options ''game'' = JStr g)"
  shows "\<exists>r f opts. op c options w = perform r f opts w \<and> http_method r = ''GET''"
proof -
  from assms(1) consider "op = seasonGames" | "op = dailyGames" | "op = seasonalPlayerGamelogs"
    | "op = fullGameSchedule" | "op = dailyGameSchedule"
    by (auto simp: current_operations_def older_operations_def)
  then show ?thesis
  proof cases
    case 1
    have "http_method (buildRequest c GET u) = ''GET''" for u
      by (simp add: buildRequest_def GET_def)
    then show ?thesis unfolding 1 seasonGames_perform by blast
  next
    case 2
    have "http_method (buildRequest c GET u) = ''GET''" for u
      by (simp add: buildRequest_def GET_def)
    then show ?thesis unfolding 2 dailyGames_perform by blast
  next
    case 3
    with assms(2) obtain g where g: "get_prop options ''game'' = JStr g" by blast
    have "http_method (buildRequest c GET u) = ''GET''" for u
      by (simp add: buildRequest_def GET_def)
    then show ?thesis unfolding 3 seasonalPlayerGamelogs_perform g by simp blast
  next
    case 4
    have "http_method (request_get c u) = ''GET''" for u
      by (simp add: request_get_def)
    then show ?thesis unfolding 4 fullGameSchedule_perform by blast
  next
    case 5
    have "http_method (request_get c u) = ''GET''" for u
      by (simp add: request_get_def)
    then show ?thesis unfolding 5 dailyGameSchedule_perform by blast
  qed
qed

lemma operation_raises:
  assumes "op \<in> current_operations \<union> older_operations"
    and "fst (op c options w) = Raised e"
  shows "snd (snd (op c options w)) = w \<and> (\<forall>g. get_prop options ''game'' \<noteq> JStr g)"
proof -
  have p: "fst (perform r f opts w) \<noteq> Raised e" for r f opts
    by (simp add: perform_outcome split: sum.splits)
  from assms(1) consider "op = seasonGames" | "op = dailyGames" | "op = seasonalPlayerGamelogs"
    | "op = fullGameSchedule" | "op = dailyGameSchedule"
    by (auto simp: current_operations_def older_operations_def)
  then show ?thesis
  proof cases
    case 1
    with assms(2) p show ?thesis by (simp add: seasonGames_perform)
  next
    case 2
    with assms(2) p show ?thesis by (simp add: dailyGames_perform)
  next
    case 3
    with assms(2) p show ?thesis
      by (cases "get_prop options ''game''") (simp_all add: seasonalPlayerGamelogs_perform)
  next
    case 4
    with assms(2) p show ?thesis by (simp add: fullGameSchedule_perform)
  next
    case 5
    with assms(2) p show ?thesis by (simp add: dailyGameSchedule_perform)
  qed
qed

text \<open>
  C8. Every operation sends exactly one GET request, unless it is
  \<open>seasonalPlayerGamelogs\<close> without a string under \<open>game\<close>. When that request is
  rejected, because the network failed or because the status of the response is not a
  2xx one, the operation returns \<open>null\<close> and exactly that error is appended to standard
  error; when it is answered with a 2xx status nothing is logged; in every case the
  operation returns. In particular, on a network that refuses every connection the
  operation sends its request, returns \<open>null\<close> and logs the failure. An operation
  raises only when it has sent nothing and left the world as it was, which is the case
  of the missing game.
\<close>

theorem rejected_request_returns_null:
  assumes "op \<in> current_operations \<union> older_operations"
  shows "((op = seasonalPlayerGamelogs \<longrightarrow> (\<exists>g. get_prop options ''game'' = JStr g)) \<longrightarrow>
            (\<exists>r. new_requests w (snd (snd (op c options w))) = [r] \<and>
                 http_method r = ''GET'' \<and>
                 (\<exists>v. fst (op c options w) = Returned v) \<and>
                 (\<forall>m. transport w r = Inl m \<longrightarrow>
                    fst (op c options w) = Returned Null \<and>
                    stderr (snd (snd (op c options w))) = stderr w @ [NetworkError m]) \<and>
                 (\<forall>res. transport w r = Inr res \<and>
                    \<not> (200 \<le> status res \<and> status res < 300) \<longrightarrow>
                    fst (op c options w) = Returned Null \<and>
                    stderr (snd (snd (op c options w))) = stderr w @ [HttpError res]) \<and>
                 (\<forall>res. transport w r = Inr res \<and> 200 \<le> status res \<and> status res < 300 \<longrightarrow>
                    stderr (snd (snd (op c options w))) = stderr w))) \<and>
         ((op = seasonalPlayerGamelogs \<longrightarrow> (\<exists>g. get_prop options ''game'' = JStr g)) \<and>
          (\<forall>r. \<exists>m. transport w r = Inl m) \<longrightarrow>
            (\<exists>r m. new_requests w (snd (snd (op c options w))) = [r] \<and>
                   transport w r = Inl m \<and>
                   fst (op c options w) = Returned Null \<and>
                   stderr (snd (snd (op c options w))) = stderr w @ [NetworkError m])) \<and>
         (\<forall>e. fst (op c options w) = Raised e \<longrightarrow>
            snd (snd (op c options w)) = w \<and>
            new_requests w (snd (snd (op c options w))) = [] \<and>
            (\<forall>g. get_prop options ''game'' \<noteq> JStr g))"
proof -
  have A: "\<exists>r. new_requests w (snd (snd (op c options w))) = [r] \<and>
                 http_method r = ''GET'' \<and>
                 (\<exists>v. fst (op c options w) = Returned v) \<and>
                 (\<forall>m. transport w r = Inl m \<longrightarrow>
                    fst (op c options w) = Returned Null \<and>
                    stderr (snd (snd (op c options w))) = stderr w @ [NetworkError m]) \<and>
                 (\<forall>res. transport w r = Inr res \<and>
                    \<not> (200 \<le> status res \<and> status res < 300) \<longrightarrow>
                    fst (op c options w) = Returned Null \<and>
                    stderr (snd (snd (op c options w))) = stderr w @ [HttpError res]) \<and>
                 (\<forall>res. transport w r = Inr res \<and> 200 \<le> status res \<and> status res < 300 \<longrightarrow>
                    stderr (snd (snd (op c options w))) = stderr w)"
    if g: "op = seasonalPlayerGamelogs \<longrightarrow> (\<exists>g. get_prop options ''game'' = JStr g)"
  proof -
    from operation_performs [OF assms g, of c w] obtain r f opts
      where p: "op c options w = perform r f opts w" and m: "http_method r = ''GET''"
      by blast
    have "new_requests w (snd (snd (perform r f opts w))) = [r]"
      by (rule perform_new_requests)
    moreover have "\<exists>v. fst (perform r f opts w) = Returned v"
      by (simp add: perform_outcome split: sum.splits)
    moreover have "\<forall>m. transport w r = Inl m \<longrightarrow>
        fst (perform r f opts w) = Returned Null \<and>
        stderr (snd (snd (perform r f opts w))) = stderr w @ [NetworkError m]"
      by (simp add: perform_outcome perform_stderr)
    moreover have "\<forall>res. transport w r = Inr res \<and>
        \<not> (200 \<le> status res \<and> status res < 300) \<longrightarrow>
        fst (perform r f opts w) = Returned Null \<and>
        stderr (snd (snd (perform r f opts w))) = stderr w @ [HttpError res]"
      by (auto simp: perform_outcome perform_stderr)
    moreover have "\<forall>res. transport w r = Inr res \<and> 200 \<le> status res \<and> status res < 300 \<longrightarrow>
        stderr (snd (snd (perform r f opts w))) = stderr w"
      by (simp add: perform_stderr)
    ultimately show ?thesis unfolding p using m by blast
  qed
  have B: "\<exists>r m. new_requests w (snd (snd (op c options w))) = [r] \<and>
                   transport w r = Inl m \<and>
                   fst (op c options w) = Returned Null \<and>
                   stderr (snd (snd (op c options w))) = stderr w @ [NetworkError m]"
    if g: "op = seasonalPlayerGamelogs \<longrightarrow> (\<exists>g. get_prop options ''game'' = JStr g)"
      and t: "\<forall>r. \<exists>m. transport w r = Inl m"
  proof -
    from A [OF g] obtain r where r: "new_requests w (snd (snd (op c options w))) = [r]"
      and n: "\<forall>m. transport w r = Inl m \<longrightarrow>
                fst (op c options w) = Returned Null \<and>
                stderr (snd (snd (op c options w))) = stderr w @ [NetworkError m]"
      by blast
    from t obtain m where "transport w r = Inl m" by blast
    with r n show ?thesis by blast
  qed
  have C: "snd (snd (op c options w)) = w \<and>
           new_requests w (snd (snd (op c options w))) = [] \<and>
           (\<forall>g. get_prop options ''game'' \<noteq> JStr g)"
    if "fst (op c options w) = Raised e" for e
    using operation_raises [OF assms that] by (simp add: new_requests_same)
  from A B C show ?thesis by blast
qed

theorem rejected_request_returns_null_witness:
  "dailyGames \<in> current_operations \<union> older_operations \<and>
   (\<forall>r. \<exists>m. transport offline_world r = Inl m) \<and>
   map url (new_requests offline_world (snd (snd (dailyGames mlb_client [] offline_world)))) =
     [''https://api.mysportsfeeds.com/v2.1/pull/mlb/current/date/20190924/games.json''] \<and>
   fst (dailyGames mlb_client [] offline_world) = Returned Null \<and>
   stderr (snd (snd (dailyGames mlb_client [] offline_world))) = [NetworkError ''ECONNREFUSED''] \<and>
   fst (seasonGames mlb_client [] (answering_world \<lparr>status = 404, body = JsonNull\<rparr>)) = Returned Null \<and>
   stderr (snd (snd (seasonGames mlb_client [] (answering_world \<lparr>status = 404, body = JsonNull\<rparr>)))) =
     [HttpError \<lparr>status = 404, body = JsonNull\<rparr>]"
proof -
  have 1: "dailyGames \<in> current_operations \<union> older_operations"
    and 2: "seasonGames \<in> current_operations \<union> older_operations"
    by (simp_all add: current_operations_def)
  have d: "dailyGames \<noteq> seasonalPlayerGamelogs"
  proof
    assume "dailyGames = seasonalPlayerGamelogs"
    then have "fst (dailyGames mlb_client [] offline_world) =
        fst (seasonalPlayerGamelogs mlb_client [] offline_world)"
      by simp
    then show False
      by (simp add: dailyGames_perform seasonalPlayerGamelogs_perform perform_outcome
          get_prop_def offline_world_def)
  qed
  have s: "seasonGames \<noteq> seasonalPlayerGamelogs"
  proof
    assume "seasonGames = seasonalPlayerGamelogs"
    then have "fst (seasonGames mlb_client [] offline_world) =
        fst (seasonalPlayerGamelogs mlb_client [] offline_world)"
      by simp
    then show False
      by (simp add: seasonGames_perform seasonalPlayerGamelogs_perform perform_outcome
          get_prop_def offline_world_def)
  qed
  have t: "\<forall>r. \<exists>m. transport offline_world r = Inl m"
    by (simp add: offline_world_def)
  have f: "format_YYYYMMDD (today offline_world) = ''20190924''"
    by (simp add: offline_world_def format_YYYYMMDD_def digit_char_def char_of_def bit_iff_odd)
  have n1: "new_requests offline_world (snd (snd (dailyGames mlb_client [] offline_world))) =
      [buildRequest mlb_client GET (apiUrl mlb_client ''/current/date/20190924/games.json'')]"
    by (simp add: dailyGames_perform perform_new_requests option_or_def get_prop_def js_or_def
        delete_prop_def query_suffix_def CURRENT_def f)
  have n2: "new_requests (answering_world \<lparr>status = 404, body = JsonNull\<rparr>)
      (snd (snd (seasonGames mlb_client [] (answering_world \<lparr>status = 404, body = JsonNull\<rparr>)))) =
      [buildRequest mlb_client GET (apiUrl mlb_client ''/current/games.json'')]"
    by (simp add: seasonGames_perform perform_new_requests option_or_def get_prop_def js_or_def
        delete_prop_def query_suffix_def CURRENT_def)
  from rejected_request_returns_null [OF 1, of "[]" offline_world mlb_client]
    rejected_request_returns_null [OF 2, of "[]" "answering_world \<lparr>status = 404, body = JsonNull\<rparr>" mlb_client]
  show ?thesis
    unfolding n1 n2 using 1 t d s
    by (simp add: offline_world_def answering_world_def buildRequest_def apiUrl_def
        mlb_client_def)
qed

section \<open>What the operations do to the caller's options\<close>

text \<open>
  C10. The operations of the current \<open>ApiBase\<close> change the options object they are
  given: after \<open>seasonGames\<close> the key \<open>seasonName\<close> is gone, after \<open>dailyGames\<close> the
  keys \<open>season\<close> and \<open>date\<close>, after \<open>seasonalPlayerGamelogs\<close> the key \<open>season\<close>
  (also when it raises), and \<open>game\<close> stays. Every other property keeps its value and
  its place.
\<close>

theorem operations_delete_option_keys:
  "fst (snd (seasonGames c options w)) = filter (\<lambda>kv. fst kv \<noteq> ''seasonName'') options \<and>
   ''seasonName'' \<notin> set (Object_keys (fst (snd (seasonGames c options w)))) \<and>
   (\<forall>k. k \<noteq> ''seasonName'' \<longrightarrow>
      map_of (fst (snd (seasonGames c options w))) k = map_of options k) \<and>
   fst (snd (dailyGames c options w)) =
     filter (\<lambda>kv. fst kv \<noteq> ''season'' \<and> fst kv \<noteq> ''date'') options \<and>
   ''season'' \<notin> set (Object_keys (fst (snd (dailyGames c options w)))) \<and>
   ''date'' \<notin> set (Object_keys (fst (snd (dailyGames c options w)))) \<and>
   (\<forall>k. k \<noteq> ''season'' \<and> k \<noteq> ''date'' \<longrightarrow>
      map_of (fst (snd (dailyGames c options w))) k = map_of options k) \<and>
   fst (snd (seasonalPlayerGamelogs c options w)) = filter (\<lambda>kv. fst kv \<noteq> ''season'') options \<and>
   ''season'' \<notin> set (Object_keys (fst (snd (seasonalPlayerGamelogs c options w)))) \<and>
   (\<forall>k. k \<noteq> ''season'' \<longrightarrow>
      map_of (fst (snd (seasonalPlayerGamelogs c options w))) k = map_of options k) \<and>
   get_prop (fst (snd (seasonalPlayerGamelogs c options w))) ''game'' = get_prop options ''game''"
proof -
  have g: "fst (snd (seasonalPlayerGamelogs c options w)) = delete_prop options ''season''"
    by (cases "get_prop options ''game''")
      (simp_all add: seasonalPlayerGamelogs_perform perform_options)
  have s: "fst (snd (seasonGames c options w)) = delete_prop options ''seasonName''"
    by (simp add: seasonGames_perform perform_options)
  have d: "fst (snd (dailyGames c options w)) = delete_prop (delete_prop options ''season'') ''date''"
    by (simp add: dailyGames_perform perform_options)
  have f2: "delete_prop (delete_prop options ''season'') ''date'' =
      filter (\<lambda>kv. fst kv \<noteq> ''season'' \<and> fst kv \<noteq> ''date'') options"
    by (auto simp: delete_prop_def intro: filter_cong)
  show ?thesis
    unfolding g s d
    by (simp add: keys_delete_prop map_of_delete_prop get_prop_delete_other f2 [symmetric])
      (simp add: delete_prop_def)
qed

theorem operations_delete_option_keys_witness:
  "fst (snd (dailyGames mlb_client
      [(''team'', JStr ''nyy''), (''season'', JStr ''2019-regular''), (''date'', JStr ''20190924'')]
      offline_world)) = [(''team'', JStr ''nyy'')] \<and>
   fst (snd (seasonalPlayerGamelogs mlb_client
      [(''season'', JStr ''2019-regular''), (''game'', JStr ''20190924-NYY-TB'')]
      offline_world)) = [(''game'', JStr ''20190924-NYY-TB'')]"
  using operations_delete_option_keys [of mlb_client
      "[(''team'', JStr ''nyy''), (''season'', JStr ''2019-regular''), (''date'', JStr ''20190924'')]"
      offline_world]
    operations_delete_option_keys [of mlb_client
      "[(''season'', JStr ''2019-regular''), (''game'', JStr ''20190924-NYY-TB'')]" offline_world]
  by simp

section \<open>What a successful request returns\<close>

lemma current_operations_return_body:
  assumes "op \<in> current_operations"
    and "new_requests w (snd (snd (op c options w))) = [r]"
    and "transport w r = Inr res" and "200 \<le> status res" and "status res < 300"
  shows "fst (op c options w) = Returned (Body (body res))"
proof -
  from assms(1) consider "op = seasonGames" | "op = dailyGames" | "op = seasonalPlayerGamelogs"
    by (auto simp: current_operations_def)
  then show ?thesis
  proof cases
    case 1
    with assms(2-) show ?thesis
      by (simp add: seasonGames_perform perform_new_requests perform_outcome)
  next
    case 2
    with assms(2-) show ?thesis
      by (simp add: dailyGames_perform perform_new_requests perform_outcome)
  next
    case 3
    with assms(2-) show ?thesis
      by (cases "get_prop options ''game''")
        (simp_all add: seasonalPlayerGamelogs_perform perform_new_requests perform_outcome
          new_requests_same)
  qed
qed

lemma older_operations_return_response:
  assumes "op \<in> older_operations"
    and "new_requests w (snd (snd (op c options w))) = [r]"
    and "transport w r = Inr res" and "200 \<le> status res" and "status res < 300"
  shows "fst (op c options w) = Returned (Response res)"
  using assms
  by (auto simp: older_operations_def fullGameSchedule_perform dailyGameSchedule_perform
      perform_new_requests perform_outcome)

text \<open>
  C2. The operations of the current \<open>ApiBase\<close> return the parsed body of a successful
  response. The two operations of the older \<open>ApiBase\<close> do not: answered with status 200
  and a JSON body, each returns the response object itself.
\<close>

theorem older_operations_return_raw_response:
  "fst (fullGameSchedule older_client []
          (answering_world \<lparr>status = 200, body = JsonObj [(''gameentry'', JsonArr [])]\<rparr>)) =
     Returned (Response \<lparr>status = 200, body = JsonObj [(''gameentry'', JsonArr [])]\<rparr>) \<and>
   fst (dailyGameSchedule older_client []
          (answering_world \<lparr>status = 200, body = JsonObj [(''gameentry'', JsonArr [])]\<rparr>)) =
     Returned (Response \<lparr>status = 200, body = JsonObj [(''gameentry'', JsonArr [])]\<rparr>) \<and>
   fst (seasonGames mlb_client []
          (answering_world \<lparr>status = 200, body = JsonObj [(''gameentry'', JsonArr [])]\<rparr>)) =
     Returned (Body (JsonObj [(''gameentry'', JsonArr [])]))"
  by (simp add: fullGameSchedule_perform dailyGameSchedule_perform seasonGames_perform
      perform_outcome answering_world_def)

section \<open>The URLs that are requested\<close>

lemma file_at_after_season:
  assumes "q = [] \<or> take 1 q = ''?''" and "name \<noteq> []"
  shows "list_ex (file_at name (CHR ''/'' # s @ name @ q)) [1..<length (CHR ''/'' # s @ name @ q)]"
proof -
  have "file_at name (CHR ''/'' # s @ name @ q) (Suc (length s))"
    using assms(1) by (auto simp: file_at_def)
  moreover have "Suc (length s) \<in> set [1..<length (CHR ''/'' # s @ name @ q)]"
  proof -
    from assms(2) obtain n where "length name = Suc n" by (cases name) auto
    then have "Suc (length s) < length (CHR ''/'' # s @ name @ q)" by simp
    moreover have "1 \<le> Suc (length s)" by simp
    ultimately show ?thesis by (simp only: set_upt atLeastLessThan_iff)

  qed
  ultimately show ?thesis unfolding list_ex_iff by blast
qed

lemma query_at_after_season:
  assumes "take 1 q = ''?''" and "name \<noteq> []"
  shows "list_ex (query_at name (CHR ''/'' # s @ name @ q)) [1..<length (CHR ''/'' # s @ name @ q)]"
proof -
  have "query_at name (CHR ''/'' # s @ name @ q) (Suc (length s))"
    using assms(1) by (auto simp: query_at_def)
  moreover have "Suc (length s) \<in> set [1..<length (CHR ''/'' # s @ name @ q)]"
  proof -
    from assms(2) obtain n where "length name = Suc n" by (cases name) auto
    then have "Suc (length s) < length (CHR ''/'' # s @ name @ q)" by simp
    moreover have "1 \<le> Suc (length s)" by simp
    ultimately show ?thesis by (simp only: set_upt atLeastLessThan_iff)

  qed
  ultimately show ?thesis unfolding list_ex_iff by blast
qed

lemma query_suffix_cases: "query_suffix opts = [] \<or> take 1 (query_suffix opts) = ''?''"
  by (simp add: query_suffix_def)

lemma spec_endpoint_games:
  "spec_endpoint (''/'' @ s @ ''/games.json'' @ query_suffix opts)"
  using file_at_after_season [where name = "''/games.json''" and q = "query_suffix opts" and s = s]
    query_suffix_cases [of opts]
  by (simp add: spec_endpoint_def)

lemma spec_endpoint_daily:
  "spec_endpoint (''/'' @ s @ ''/date/'' @ d @ ''/games.json'' @ query_suffix opts)"
  using file_at_after_season [where name = "''/games.json''" and q = "query_suffix opts"
      and s = "s @ ''/date/'' @ d"] query_suffix_cases [of opts]
  by (simp add: spec_endpoint_def)

lemma spec_endpoint_gamelogs:
  assumes "opts \<noteq> []"
  shows "spec_endpoint (''/'' @ s @ ''/player_gamelogs.json'' @ query_suffix opts)"
proof -
  have "take 1 (query_suffix opts) = ''?''" using assms by (simp add: query_suffix_def)
  from query_at_after_season [OF this, where name = "''/player_gamelogs.json''" and s = s]
  show ?thesis
    by (simp add: spec_endpoint_def)
qed

lemma spec_url_apiUrl: "spec_endpoint e \<Longrightarrow> spec_url c (apiUrl c e)"
  by (simp add: spec_url_def apiUrl_def)

lemma delete_season_keeps_game:
  assumes "get_prop options ''game'' = JStr g"
  shows "delete_prop options ''season'' \<noteq> []"
proof
  assume "delete_prop options ''season'' = []"
  then have "get_prop (delete_prop options ''season'') ''game'' = JUndefined"
    by (simp add: get_prop_def)
  with assms show False by (simp add: get_prop_delete_other)
qed

lemma current_operation_requests:
  assumes "op \<in> current_operations"
  shows "\<forall>r\<in>set (new_requests w (snd (snd (op c options w)))).
           http_method r = ''GET'' \<and> spec_url c (url r)"
proof -
  from assms consider "op = seasonGames" | "op = dailyGames" | "op = seasonalPlayerGamelogs"
    by (auto simp: current_operations_def)
  then show ?thesis
  proof cases
    case 1
    show ?thesis
      unfolding 1 seasonGames_perform perform_new_requests
      using spec_url_apiUrl [OF spec_endpoint_games]
      by (simp add: buildRequest_def GET_def)
  next
    case 2
    show ?thesis
      unfolding 2 dailyGames_perform perform_new_requests
      using spec_url_apiUrl [OF spec_endpoint_daily]
      by (simp add: buildRequest_def GET_def)
  next
    case 3
    show ?thesis
    proof (cases "get_prop options ''game''")
      case (JStr g)
      from spec_url_apiUrl [OF spec_endpoint_gamelogs [OF delete_season_keeps_game [OF JStr]]]
      show ?thesis
        unfolding 3 seasonalPlayerGamelogs_perform
        by (simp add: JStr perform_new_requests buildRequest_def GET_def)
    qed (simp_all add: 3 seasonalPlayerGamelogs_perform new_requests_same)
  qed
qed

lemma constructed_client:
  assumes "ApiBase_constructor credentials = Inr c \<or> MlbApi_constructor credentials = Inr c"
  shows "baseUrl c = ''https://api.mysportsfeeds.com/v2.1/pull'' \<and>
         (leaguePath c = [] \<or> leaguePath c = ''/mlb'')"
  using assms
  by (auto simp: ApiBase_constructor_def MlbApi_constructor_def API_VERSION_def
      split: sum.splits)

lemma older_constructed_client:
  assumes "ApiBase_v1_2_constructor credentials = Inr c"
  shows "baseUrl c = ''https://api.mysportsfeeds.com/v1.2/pull'' \<and> leaguePath c = []"
  using assms by (auto simp: ApiBase_v1_2_constructor_def split: sum.splits)

text \<open>
  The older \<open>dailyGameSchedule\<close> puts no slash between the league path and the season:
  with the defaults it asks for \<open>.../pullcurrent/daily_game_schedule.json\<close>.
\<close>

lemma dailyGameSchedule_url:
  "map url (new_requests offline_world
     (snd (snd (dailyGameSchedule older_client [] offline_world)))) =
     [''https://api.mysportsfeeds.com/v1.2/pullcurrent/daily_game_schedule.json?forDate=20190924'']"
  by (simp add: dailyGameSchedule_perform perform_new_requests request_get_def apiUrl_def
      option_or_def get_prop_def js_or_def CURRENT_def older_client_def offline_world_def
      format_YYYYMMDD_def digit_char_def char_of_def bit_iff_odd)

text \<open>
  C7, as stated, fails: the older \<open>fullGameSchedule\<close> asks for
  \<open>/current/full_game_schedule.json\<close>, which is none of the listed endpoints.
\<close>

theorem fullGameSchedule_url_not_listed:
  "map url (new_requests offline_world
     (snd (snd (fullGameSchedule older_client [] offline_world)))) =
     [''https://api.mysportsfeeds.com/v1.2/pull/current/full_game_schedule.json''] \<and>
   \<not> spec_url older_client
     ''https://api.mysportsfeeds.com/v1.2/pull/current/full_game_schedule.json''"
proof -
  have "\<not> spec_endpoint ''/current/full_game_schedule.json''"
    by code_simp
  then have "\<not> spec_url older_client
     ''https://api.mysportsfeeds.com/v1.2/pull/current/full_game_schedule.json''"
    by (simp add: spec_url_def older_client_def)
  then show ?thesis
    by (simp add: fullGameSchedule_perform perform_new_requests request_get_def apiUrl_def
      option_or_def get_prop_def js_or_def CURRENT_def older_client_def)
qed

lemma join_amp_field:
  assumes "x \<in> set xs"
  shows "\<exists>pre post. join_amp xs = pre @ x @ post \<and>
           (pre = [] \<or> last pre = CHR ''&'') \<and> (post = [] \<or> hd post = CHR ''&'')"
  using assms
proof (induction xs rule: join_amp.induct)
  case 1
  then show ?case by simp
next
  case (2 f)
  then have "join_amp [f] = [] @ x @ []" by simp
  then show ?case by blast
next
  case (3 f g fs)
  show ?case
  proof (cases "x = f")
    case True
    have "join_amp (f # g # fs) = [] @ x @ (''&'' @ join_amp (g # fs))"
      by (simp add: True)
    moreover have "hd (''&'' @ join_amp (g # fs)) = CHR ''&''" by simp
    ultimately show ?thesis by blast
  next
    case False
    with 3 obtain pre post where j: "join_amp (g # fs) = pre @ x @ post"
      and p: "pre = [] \<or> last pre = CHR ''&''" and q: "post = [] \<or> hd post = CHR ''&''"
      by auto
    have "join_amp (f # g # fs) = (f @ ''&'' @ pre) @ x @ post"
      by (simp add: j)
    moreover have "last (f @ ''&'' @ pre) = CHR ''&''"
      using p by auto
    ultimately show ?thesis using q by blast
  qed
qed

lemma query_holds_game:
  assumes "get_prop options ''game'' = JStr g"
  shows "\<exists>pre post. querystring_stringify (delete_prop options ''season'') =
             pre @ ''game='' @ qs_escape g @ post \<and>
           (pre = [] \<or> last pre = CHR ''&'') \<and> (post = [] \<or> hd post = CHR ''&'')"
proof -
  from assms have "map_of options ''game'' = Some (JStr g)"
    by (simp add: get_prop_def split: option.splits)
  then have "(''game'', JStr g) \<in> set options" by (rule map_of_SomeD)
  then have "(''game'', JStr g) \<in> set (delete_prop options ''season'')"
    by (simp add: delete_prop_def)
  then have "qs_field (''game'', JStr g) \<in> set (map qs_field (delete_prop options ''season''))"
    by (simp only: set_map) (rule imageI)
  moreover have "qs_field (''game'', JStr g) = ''game='' @ qs_escape g"
    by (simp add: qs_field_def qs_escape_def escape_char_def unreserved_def)
  ultimately show ?thesis
    using join_amp_field [of "''game='' @ qs_escape g" "map qs_field (delete_prop options ''season'')"]
    by (simp add: querystring_stringify_def)
qed

lemma query_suffix_with_game:
  assumes "get_prop options ''game'' = JStr g"
  shows "query_suffix (delete_prop options ''season'') =
           ''?'' @ querystring_stringify (delete_prop options ''season'')"
  using delete_season_keeps_game [OF assms] by (simp add: query_suffix_def)

text \<open>
  C7, amended. A client built by the current \<open>ApiBase\<close> or by \<open>MlbApi\<close> has the base
  URL \<open>https://api.mysportsfeeds.com/v2.1/pull\<close> and the league path empty or
  \<open>/mlb\<close>. Each of its operations sends exactly one request, a GET with the
  authorization header, to base URL, league path and an endpoint that begins with a
  slash: \<open>seasonGames\<close> to \<open>/{season}/games.json\<close> and \<open>dailyGames\<close> to
  \<open>/{season}/date/{date}/games.json\<close>, each followed by \<open>?\<close> and the query string of
  the options that are left when there are any, and \<open>seasonalPlayerGamelogs\<close>, given
  a game, to \<open>/{season}/player_gamelogs.json?\<close> and the query string of the options
  left once \<open>season\<close> is removed, of which \<open>game=<id>\<close> is one field. These are
  endpoints of the list. A client built by the older \<open>ApiBase\<close> sends the GET request
  of \<open>fullGameSchedule\<close> to
  \<open>https://api.mysportsfeeds.com/v1.2/pull/{season}/full_game_schedule.json\<close>.
\<close>

theorem request_urls_by_client:
  assumes "ApiBase_constructor credentials = Inr c \<or> MlbApi_constructor credentials = Inr c"
  shows "baseUrl c = ''https://api.mysportsfeeds.com/v2.1/pull'' \<and>
         (leaguePath c = [] \<or> leaguePath c = ''/mlb'') \<and>
         new_requests w (snd (snd (seasonGames c options w))) =
           [\<lparr>http_method = ''GET'',
             url = ''https://api.mysportsfeeds.com/v2.1/pull'' @ leaguePath c @ ''/''
                   @ option_or options ''seasonName'' ''current'' @ ''/games.json''
                   @ (if delete_prop options ''seasonName'' = [] then []
                      else ''?'' @ querystring_stringify (delete_prop options ''seasonName'')),
             headers = [(''Authorization'', authHeader c)]\<rparr>] \<and>
         new_requests w (snd (snd (dailyGames c options w))) =
           [\<lparr>http_method = ''GET'',
             url = ''https://api.mysportsfeeds.com/v2.1/pull'' @ leaguePath c @ ''/''
                   @ option_or options ''season'' ''current'' @ ''/date/''
                   @ option_or options ''date'' (format_YYYYMMDD (today w)) @ ''/games.json''
                   @ (if delete_prop (delete_prop options ''season'') ''date'' = [] then []
                      else ''?'' @ querystring_stringify
                             (delete_prop (delete_prop options ''season'') ''date'')),
             headers = [(''Authorization'', authHeader c)]\<rparr>] \<and>
         (\<forall>g. get_prop options ''game'' = JStr g \<longrightarrow>
            new_requests w (snd (snd (seasonalPlayerGamelogs c options w))) =
              [\<lparr>http_method = ''GET'',
                url = ''https://api.mysportsfeeds.com/v2.1/pull'' @ leaguePath c @ ''/''
                      @ option_or options ''season'' ''current'' @ ''/player_gamelogs.json?''
                      @ querystring_stringify (delete_prop options ''season''),
                headers = [(''Authorization'', authHeader c)]\<rparr>] \<and>
            (\<exists>pre post. querystring_stringify (delete_prop options ''season'') =
                 pre @ ''game='' @ qs_escape g @ post \<and>
               (pre = [] \<or> last pre = CHR ''&'') \<and> (post = [] \<or> hd post = CHR ''&''))) \<and>
         (\<forall>op\<in>current_operations.
            \<forall>r\<in>set (new_requests w (snd (snd (op c options w)))).
              http_method r = ''GET'' \<and> spec_url c (url r)) \<and>
         (\<forall>c'. ApiBase_v1_2_constructor credentials = Inr c' \<longrightarrow>
            new_requests w (snd (snd (fullGameSchedule c' options w))) =
              [\<lparr>http_method = ''GET'',
                url = ''https://api.mysportsfeeds.com/v1.2/pull/''
                      @ option_or options ''seasonName'' ''current''
                      @ ''/full_game_schedule.json'',
                headers = [(''Authorization'', authHeader c')]\<rparr>])"
proof -
  from constructed_client [OF assms]
  have b: "baseUrl c = ''https://api.mysportsfeeds.com/v2.1/pull''"
    and l: "leaguePath c = [] \<or> leaguePath c = ''/mlb''"
    by simp_all
  have s: "new_requests w (snd (snd (seasonGames c options w))) =
           [\<lparr>http_method = ''GET'',
             url = ''https://api.mysportsfeeds.com/v2.1/pull'' @ leaguePath c @ ''/''
                   @ option_or options ''seasonName'' ''current'' @ ''/games.json''
                   @ (if delete_prop options ''seasonName'' = [] then []
                      else ''?'' @ querystring_stringify (delete_prop options ''seasonName'')),
             headers = [(''Authorization'', authHeader c)]\<rparr>]"
    by (simp add: seasonGames_perform perform_new_requests buildRequest_def apiUrl_def b
        GET_def AUTHORIZATION_def CURRENT_def query_suffix_def)
  have d: "new_requests w (snd (snd (dailyGames c options w))) =
           [\<lparr>http_method = ''GET'',
             url = ''https://api.mysportsfeeds.com/v2.1/pull'' @ leaguePath c @ ''/''
                   @ option_or options ''season'' ''current'' @ ''/date/''
                   @ option_or options ''date'' (format_YYYYMMDD (today w)) @ ''/games.json''
                   @ (if delete_prop (delete_prop options ''season'') ''date'' = [] then []
                      else ''?'' @ querystring_stringify
                             (delete_prop (delete_prop options ''season'') ''date'')),
             headers = [(''Authorization'', authHeader c)]\<rparr>]"
    by (simp add: dailyGames_perform perform_new_requests buildRequest_def apiUrl_def b
        GET_def AUTHORIZATION_def CURRENT_def query_suffix_def)
  have g: "new_requests w (snd (snd (seasonalPlayerGamelogs c options w))) =
              [\<lparr>http_method = ''GET'',
                url = ''https://api.mysportsfeeds.com/v2.1/pull'' @ leaguePath c @ ''/''
                      @ option_or options ''season'' ''current'' @ ''/player_gamelogs.json?''
                      @ querystring_stringify (delete_prop options ''season''),
                headers = [(''Authorization'', authHeader c)]\<rparr>] \<and>
            (\<exists>pre post. querystring_stringify (delete_prop options ''season'') =
                 pre @ ''game='' @ qs_escape g @ post \<and>
               (pre = [] \<or> last pre = CHR ''&'') \<and> (post = [] \<or> hd post = CHR ''&''))"
    if "get_prop options ''game'' = JStr g" for g
    using query_holds_game [OF that] query_suffix_with_game [OF that]
    by (simp add: seasonalPlayerGamelogs_perform that perform_new_requests buildRequest_def
        apiUrl_def b GET_def AUTHORIZATION_def CURRENT_def)
  have u: "\<forall>op\<in>current_operations.
            \<forall>r\<in>set (new_requests w (snd (snd (op c options w)))).
              http_method r = ''GET'' \<and> spec_url c (url r)"
    using current_operation_requests [of _ w c options] by blast
  have f: "new_requests w (snd (snd (fullGameSchedule c' options w))) =
              [\<lparr>http_method = ''GET'',
                url = ''https://api.mysportsfeeds.com/v1.2/pull/''
                      @ option_or options ''seasonName'' ''current''
                      @ ''/full_game_schedule.json'',
                headers = [(''Authorization'', authHeader c')]\<rparr>]"
    if "ApiBase_v1_2_constructor credentials = Inr c'" for c'
    using older_constructed_client [OF that]
    by (simp add: fullGameSchedule_perform perform_new_requests request_get_def apiUrl_def
        CURRENT_def AUTHORIZATION_def)
  from b l s d g u f show ?thesis by blast
qed

theorem request_urls_by_client_witness:
  "MlbApi_constructor [(''apiKey'', JStr ''user''), (''password'', JStr ''pass'')] = Inr mlb_client \<and>
   ApiBase_v1_2_constructor [(''apiKey'', JStr ''user''), (''password'', JStr ''pass'')] =
     Inr older_client \<and>
   get_prop [(''team'', JStr ''nyy''), (''game'', JStr ''20190924-NYY-TB'')] ''game'' =
     JStr ''20190924-NYY-TB'' \<and>
   new_requests offline_world (snd (snd (seasonalPlayerGamelogs mlb_client
       [(''team'', JStr ''nyy''), (''game'', JStr ''20190924-NYY-TB'')] offline_world))) =
     [\<lparr>http_method = ''GET'',
       url = ''https://api.mysportsfeeds.com/v2.1/pull/mlb/current/player_gamelogs.json?team=nyy&game=20190924-NYY-TB'',
       headers = [(''Authorization'', ''Basic dXNlcjpwYXNz'')]\<rparr>] \<and>
   new_requests offline_world (snd (snd (seasonGames mlb_client
       [(''team'', JStr ''nyy''), (''game'', JStr ''20190924-NYY-TB'')] offline_world))) =
     [\<lparr>http_method = ''GET'',
       url = ''https://api.mysportsfeeds.com/v2.1/pull/mlb/current/games.json?team=nyy&game=20190924-NYY-TB'',
       headers = [(''Authorization'', ''Basic dXNlcjpwYXNz'')]\<rparr>] \<and>
   new_requests offline_world (snd (snd (fullGameSchedule older_client
       [(''team'', JStr ''nyy''), (''game'', JStr ''20190924-NYY-TB'')] offline_world))) =
     [\<lparr>http_method = ''GET'',
       url = ''https://api.mysportsfeeds.com/v1.2/pull/current/full_game_schedule.json'',
       headers = [(''Authorization'', ''Basic dXNlcjpwYXNz'')]\<rparr>]"
proof -
  let ?o = "[(''team'', JStr ''nyy''), (''game'', JStr ''20190924-NYY-TB'')]"
  have b: "base64 ''user:pass'' = ''dXNlcjpwYXNz''"
    by (simp add: base64_def b64_def base64_alphabet_def)
  have m: "MlbApi_constructor [(''apiKey'', JStr ''user''), (''password'', JStr ''pass'')] =
      Inr mlb_client"
    by (simp add: MlbApi_constructor_def ApiBase_constructor_def checkIsString_def get_prop_def
        generateAuthHeader_def b mlb_client_def API_VERSION_def)
  have o: "ApiBase_v1_2_constructor [(''apiKey'', JStr ''user''), (''password'', JStr ''pass'')] =
      Inr older_client"
    by (simp add: ApiBase_v1_2_constructor_def checkIsString_def get_prop_def
        generateAuthHeader_def b older_client_def)
  have g: "get_prop ?o ''game'' = JStr ''20190924-NYY-TB''"
    by (simp add: get_prop_def)
  have e: "option_or ?o ''seasonName'' ''current'' = ''current''"
    "option_or ?o ''season'' ''current'' = ''current''"
    by (simp_all add: option_or_def get_prop_def js_or_def)
  have d: "delete_prop ?o ''seasonName'' = ?o" "delete_prop ?o ''season'' = ?o"
    by (simp_all add: delete_prop_def)
  have q: "querystring_stringify ?o = ''team=nyy&game=20190924-NYY-TB''"
    by (simp add: querystring_stringify_def qs_field_def qs_escape_def escape_char_def
        unreserved_def)
  have h: "authHeader mlb_client = ''Basic dXNlcjpwYXNz''"
    "leaguePath mlb_client = ''/mlb''" "authHeader older_client = ''Basic dXNlcjpwYXNz''"
    by (simp_all add: mlb_client_def older_client_def)
  from request_urls_by_client [OF disjI2 [OF m], of offline_world ?o]
  show ?thesis
    using m o g by (simp add: e d q h)
qed

section \<open>The MLB client\<close>

lemma via_mlb_buildRequest:
  assumes "leaguePath b = []"
  shows "buildRequest (b\<lparr>leaguePath := ''/mlb''\<rparr>) m (apiUrl (b\<lparr>leaguePath := ''/mlb''\<rparr>) path) =
         via_mlb b (buildRequest b m (apiUrl b path))"
  using assms by (simp add: buildRequest_def apiUrl_def via_mlb_def)

lemma perform_same_but_mlb:
  assumes "leaguePath b = []"
  shows "same_but_mlb b w
           (perform (buildRequest (b\<lparr>leaguePath := ''/mlb''\<rparr>) m
                       (apiUrl (b\<lparr>leaguePath := ''/mlb''\<rparr>) path)) f opts w)
           (perform (buildRequest b m (apiUrl b path)) f opts
              (w\<lparr>transport := transport w \<circ> via_mlb b\<rparr>))"
  unfolding via_mlb_buildRequest [OF assms] same_but_mlb_def
  by (simp add: perform_outcome perform_options perform_stderr perform_rest perform_issued
      new_requests_def split: sum.splits)

lemma operations_same_but_mlb:
  assumes "op \<in> current_operations" and "leaguePath b = []"
  shows "same_but_mlb b w (op (b\<lparr>leaguePath := ''/mlb''\<rparr>) options w)
           (op b options (w\<lparr>transport := transport w \<circ> via_mlb b\<rparr>))"
proof -
  from assms(1) consider "op = seasonGames" | "op = dailyGames" | "op = seasonalPlayerGamelogs"
    by (auto simp: current_operations_def)
  then show ?thesis
  proof cases
    case 1
    show ?thesis
      unfolding 1 seasonGames_perform by (rule perform_same_but_mlb [OF assms(2)])
  next
    case 2
    show ?thesis
      unfolding 2 dailyGames_perform
      using perform_same_but_mlb [OF assms(2)] by simp
  next
    case 3
    show ?thesis
    proof (cases "get_prop options ''game''")
      case (JStr g)
      show ?thesis
        unfolding 3 seasonalPlayerGamelogs_perform JStr
        using perform_same_but_mlb [OF assms(2)] by simp
    qed (simp_all add: 3 seasonalPlayerGamelogs_perform same_but_mlb_def new_requests_def)
  qed
qed

lemma current_operation_urls:
  assumes "op \<in> current_operations"
  shows "\<forall>r\<in>set (new_requests w (snd (snd (op c options (w\<lparr>transport := t\<rparr>))))).
           \<exists>path. url r = baseUrl c @ leaguePath c @ path"
proof -
  have n: "new_requests w (snd (snd (perform r f opts (w\<lparr>transport := t\<rparr>)))) = [r]" for r f opts
    by (simp add: new_requests_def perform_issued)
  from assms consider "op = seasonGames" | "op = dailyGames" | "op = seasonalPlayerGamelogs"
    by (auto simp: current_operations_def)
  then show ?thesis
  proof cases
    case 1
    show ?thesis unfolding 1 seasonGames_perform n
      by (simp add: buildRequest_def apiUrl_def)
  next
    case 2
    show ?thesis unfolding 2 dailyGames_perform n
      by (simp add: buildRequest_def apiUrl_def)
  next
    case 3
    show ?thesis
    proof (cases "get_prop options ''game''")
      case (JStr g)
      show ?thesis
        unfolding 3 seasonalPlayerGamelogs_perform JStr
        by (simp add: n buildRequest_def apiUrl_def)
    qed (simp_all add: 3 seasonalPlayerGamelogs_perform new_requests_def)
  qed
qed

text \<open>
  C9. \<open>MlbApi\<close> is the base client with the league path \<open>/mlb\<close>. Its constructor
  fails exactly when the base constructor fails, with the same error; when both
  succeed the two clients have the same header and base URL, the base client an empty
  league path and the MLB client \<open>/mlb\<close>. Every operation then runs alike on both: run
  by the base client against a network that answers each request as it would answer
  the request with \<open>/mlb\<close> put in, it has the same outcome, leaves the same options,
  writes the same output, and sends the request of which the MLB client's request is
  the one with \<open>/mlb\<close> between the base URL and the path.
\<close>

theorem mlb_client_differs_by_league_path:
  assumes "op \<in> current_operations"
  shows "(\<forall>e. MlbApi_constructor credentials = Inl e \<longleftrightarrow> ApiBase_constructor credentials = Inl e) \<and>
         (\<forall>b. ApiBase_constructor credentials = Inr b \<longrightarrow>
            (\<exists>m. MlbApi_constructor credentials = Inr m \<and>
                 authHeader m = authHeader b \<and> baseUrl m = baseUrl b \<and>
                 leaguePath b = [] \<and> leaguePath m = ''/mlb'' \<and>
                 same_but_mlb b w (op m options w)
                   (op b options (w\<lparr>transport := transport w \<circ> via_mlb b\<rparr>)) \<and>
                 (\<forall>r\<in>set (new_requests w
                       (snd (snd (op b options (w\<lparr>transport := transport w \<circ> via_mlb b\<rparr>))))).
                    \<exists>path. url r = baseUrl b @ path \<and>
                           url (via_mlb b r) = baseUrl b @ ''/mlb'' @ path)))"
proof -
  have 1: "\<forall>e. MlbApi_constructor credentials = Inl e \<longleftrightarrow> ApiBase_constructor credentials = Inl e"
    by (simp add: MlbApi_constructor_def split: sum.splits)
  have 2: "\<exists>m. MlbApi_constructor credentials = Inr m \<and>
                 authHeader m = authHeader b \<and> baseUrl m = baseUrl b \<and>
                 leaguePath b = [] \<and> leaguePath m = ''/mlb'' \<and>
                 same_but_mlb b w (op m options w)
                   (op b options (w\<lparr>transport := transport w \<circ> via_mlb b\<rparr>)) \<and>
                 (\<forall>r\<in>set (new_requests w
                       (snd (snd (op b options (w\<lparr>transport := transport w \<circ> via_mlb b\<rparr>))))).
                    \<exists>path. url r = baseUrl b @ path \<and>
                           url (via_mlb b r) = baseUrl b @ ''/mlb'' @ path)"
    if b: "ApiBase_constructor credentials = Inr b" for b
  proof -
    from b have l: "leaguePath b = []"
      by (auto simp: ApiBase_constructor_def split: sum.splits)
    have m: "MlbApi_constructor credentials = Inr (b\<lparr>leaguePath := ''/mlb''\<rparr>)"
      by (simp add: MlbApi_constructor_def b)
    have u: "\<forall>r\<in>set (new_requests w
                 (snd (snd (op b options (w\<lparr>transport := transport w \<circ> via_mlb b\<rparr>))))).
               \<exists>path. url r = baseUrl b @ path \<and>
                      url (via_mlb b r) = baseUrl b @ ''/mlb'' @ path"
      using current_operation_urls [OF assms, of w b options "transport w \<circ> via_mlb b"]
      by (auto simp: l via_mlb_def)
    from operations_same_but_mlb [OF assms l, of w options] m l u show ?thesis
      by simp
  qed
  from 1 2 show ?thesis by blast
qed

theorem mlb_client_differs_by_league_path_witness:
  "dailyGames \<in> current_operations \<and>
   ApiBase_constructor [(''apiKey'', JStr ''user''), (''password'', JStr ''pass'')] =
     Inr (mlb_client\<lparr>leaguePath := []\<rparr>) \<and>
   MlbApi_constructor [(''apiKey'', JStr ''user''), (''password'', JStr ''pass'')] =
     Inr mlb_client \<and>
   same_but_mlb (mlb_client\<lparr>leaguePath := []\<rparr>) offline_world
     (dailyGames mlb_client [] offline_world)
     (dailyGames (mlb_client\<lparr>leaguePath := []\<rparr>) []
        (offline_world\<lparr>transport := transport offline_world \<circ>
           via_mlb (mlb_client\<lparr>leaguePath := []\<rparr>)\<rparr>))"
proof -
  have b: "base64 ''user:pass'' = ''dXNlcjpwYXNz''"
    by (simp add: base64_def b64_def base64_alphabet_def)
  have a: "ApiBase_constructor [(''apiKey'', JStr ''user''), (''password'', JStr ''pass'')] =
      Inr (mlb_client\<lparr>leaguePath := []\<rparr>)"
    by (simp add: ApiBase_constructor_def checkIsString_def get_prop_def
        generateAuthHeader_def b mlb_client_def API_VERSION_def)
  have m: "MlbApi_constructor [(''apiKey'', JStr ''user''), (''password'', JStr ''pass'')] =
      Inr mlb_client"
    by (simp add: MlbApi_constructor_def a mlb_client_def)
  have d: "dailyGames \<in> current_operations"
    by (simp add: current_operations_def)
  from mlb_client_differs_by_league_path [OF d,
      of "[(''apiKey'', JStr ''user''), (''password'', JStr ''pass'')]" offline_world "[]"]
  show ?thesis
    using a m d by simp
qed

end
